theory Spec2Isabelle
  imports Main "HOL-Library.Word"
begin

section \<open>The perpetual-futures ledger \<open>perp_core\<close> (Move)\<close>

text \<open>
  The module \<open>My_module::perp_core\<close> of
  \<open>smart contract/sources/simple_wallet.move\<close> is embedded function by function.
  Move's \<open>u8\<close>, \<open>u64\<close> and \<open>u128\<close> are words of that width. Move arithmetic
  never wraps: an addition or multiplication that leaves the type, a subtraction below
  zero, a division by zero and a narrowing cast that does not fit abort the
  transaction. An abort is the left injection of the result; \<open>assert!\<close> aborts with
  the category of \<open>std::error\<close> that the source names and its reason code.
\<close>

subsection \<open>Values, aborts and checked arithmetic\<close>

type_synonym u8 = "8 word"
type_synonym u64 = "64 word"
type_synonym u128 = "128 word"

text \<open>An account address; the module only ever compares addresses for equality.\<close>

type_synonym address = nat

datatype abort =
    AlreadyExists nat
  | NotFound nat
  | PermissionDenied nat
  | InvalidArgument nat
  | InvalidState nat
  | ArithmeticError

definition E_PAIR_EXISTS :: nat where "E_PAIR_EXISTS = 1"
definition E_PAIR_NOT_FOUND :: nat where "E_PAIR_NOT_FOUND = 2"
definition E_POS_EXISTS :: nat where "E_POS_EXISTS = 3"
definition E_POS_NOT_FOUND :: nat where "E_POS_NOT_FOUND = 4"
definition E_BAD_SIDE :: nat where "E_BAD_SIDE = 5"
definition E_BAD_QTY :: nat where "E_BAD_QTY = 6"
definition E_BAD_LEV :: nat where "E_BAD_LEV = 7"
definition E_BAD_MARGIN :: nat where "E_BAD_MARGIN = 8"
definition E_NOT_AUTH :: nat where "E_NOT_AUTH = 9"
definition E_UNSAFE :: nat where "E_UNSAFE = 10"

definition then_do :: "abort + 'a \<Rightarrow> ('a \<Rightarrow> abort + 'b) \<Rightarrow> abort + 'b" where
  "then_do m f = (case m of Inl e \<Rightarrow> Inl e | Inr v \<Rightarrow> f v)"

definition add_chk :: "'a::len word \<Rightarrow> 'a word \<Rightarrow> abort + 'a word" where
  "add_chk a b = (if unat a + unat b < 2 ^ LENGTH('a) then Inr (a + b) else Inl ArithmeticError)"

definition sub_chk :: "'a::len word \<Rightarrow> 'a word \<Rightarrow> abort + 'a word" where
  "sub_chk a b = (if b \<le> a then Inr (a - b) else Inl ArithmeticError)"

definition mul_chk :: "'a::len word \<Rightarrow> 'a word \<Rightarrow> abort + 'a word" where
  "mul_chk a b = (if unat a * unat b < 2 ^ LENGTH('a) then Inr (a * b) else Inl ArithmeticError)"

definition div_chk :: "'a::len word \<Rightarrow> 'a word \<Rightarrow> abort + 'a word" where
  "div_chk a b = (if b = 0 then Inl ArithmeticError else Inr (a div b))"

definition mod_chk :: "'a::len word \<Rightarrow> 'a word \<Rightarrow> abort + 'a word" where
  "mod_chk a b = (if b = 0 then Inl ArithmeticError else Inr (a mod b))"

text \<open>\<open>(x as u128)\<close> from \<open>u64\<close> always fits; \<open>(x as u64)\<close> from \<open>u128\<close> aborts when it does not.\<close>

definition as_u128 :: "u64 \<Rightarrow> u128" where
  "as_u128 x = ucast x"

definition as_u64 :: "u128 \<Rightarrow> abort + u64" where
  "as_u64 x = (if unat x < 2 ^ 64 then Inr (ucast x) else Inl ArithmeticError)"

subsection \<open>Types\<close>

text \<open>\<open>side\<close>: 0 = LONG, 1 = SHORT. The field \<open>size\<close> of the source is \<open>size_lots\<close> here.\<close>

record Position =
  side :: u8
  size_lots :: u64
  entry_px :: u64
  margin :: u64
  lev_bps :: u64
  funding_index_open :: u128

record PairConfig =
  max_lev_bps :: u64
  init_margin_bps :: u64
  maint_margin_bps :: u64
  max_funding_bps_hour :: u64

record Pair =
  pair_id :: u64
  cfg :: PairConfig
  mark_px :: u64
  cum_funding_bps :: u128
  last_funding_ts :: u64
  price_oracle :: address
  vrf_oracle :: address
  positions :: "address \<rightharpoonup> Position"

text \<open>
  Global storage: the \<open>Pair\<close> resource published under each address, if any. The field
  \<open>oracle\<close> of the source is \<open>price_oracle\<close> here.
\<close>

type_synonym store = "address \<rightharpoonup> Pair"

text \<open>
  A transaction is all or nothing: the Move VM discards every write of a call that
  aborts, so the storage after a call is the old one on an abort.
\<close>

definition commit :: "store \<Rightarrow> abort + store \<Rightarrow> store" where
  "commit st r = (case r of Inl e \<Rightarrow> st | Inr st' \<Rightarrow> st')"

subsection \<open>Admin\<close>

definition pair_object_address :: "address \<Rightarrow> u64 \<Rightarrow> address" where
  "pair_object_address admin pid = admin"

definition create_pair ::
  "store \<Rightarrow> address \<Rightarrow> u64 \<Rightarrow> u64 \<Rightarrow> u64 \<Rightarrow> u64 \<Rightarrow> u64 \<Rightarrow> address \<Rightarrow> address \<Rightarrow> u64 \<Rightarrow> u64
     \<Rightarrow> abort + store" where
  "create_pair st admin pid max_lev init_bps maint_bps max_funding orc vrf init_mark_px now_ts =
     (let a = admin; key = pair_object_address a pid in
      if st key \<noteq> None then Inl (AlreadyExists E_PAIR_EXISTS)
      else Inr (st(a \<mapsto>
        \<lparr> pair_id = pid,
          cfg = \<lparr> max_lev_bps = max_lev, init_margin_bps = init_bps,
                  maint_margin_bps = maint_bps, max_funding_bps_hour = max_funding \<rparr>,
          mark_px = init_mark_px,
          cum_funding_bps = 0,
          last_funding_ts = now_ts,
          price_oracle = orc,
          vrf_oracle = vrf,
          positions = Map.empty \<rparr>)))"

subsection \<open>Oracles\<close>

definition set_mark_price :: "store \<Rightarrow> address \<Rightarrow> u64 \<Rightarrow> address \<Rightarrow> u64 \<Rightarrow> abort + store" where
  "set_mark_price st admin pid caller new_px =
     (let pa = pair_object_address admin pid in
      case st pa of
        None \<Rightarrow> Inl (NotFound E_PAIR_NOT_FOUND)
      | Some book \<Rightarrow>
          if caller \<noteq> price_oracle book then Inl (PermissionDenied E_NOT_AUTH)
          else Inr (st(pa \<mapsto> book\<lparr>mark_px := new_px\<rparr>)))"

text \<open>
  \<open>push_funding\<close>. The parameter \<open>funding_bps\<close> is not used by the source. The
  subtraction \<open>(r as u128) - (cap as u128)\<close> is a \<open>u128\<close> subtraction, evaluated
  before \<open>hours\<close> is looked at.
\<close>

definition push_funding ::
  "store \<Rightarrow> address \<Rightarrow> u64 \<Rightarrow> address \<Rightarrow> u128 \<Rightarrow> u128 \<Rightarrow> u64 \<Rightarrow> abort + store" where
  "push_funding st admin pid caller funding_bps vrf_seed_u128 now_ts =
     (let pa = pair_object_address admin pid in
      case st pa of
        None \<Rightarrow> Inl (NotFound E_PAIR_NOT_FOUND)
      | Some p \<Rightarrow>
          if caller \<noteq> vrf_oracle p then Inl (PermissionDenied E_NOT_AUTH)
          else
            let dt = (if now_ts > last_funding_ts p then now_ts - last_funding_ts p else 0) in
            if dt = 0 then Inr st
            else
              let cap = max_funding_bps_hour (cfg p) in
              then_do (mul_chk cap 2) (\<lambda>cap2.
              then_do (add_chk cap2 1) (\<lambda>span.
              then_do (mod_chk vrf_seed_u128 (as_u128 span)) (\<lambda>r128.
              then_do (as_u64 r128) (\<lambda>r.
              then_do (sub_chk (as_u128 r) (as_u128 cap)) (\<lambda>signed.
              then_do (div_chk dt 3600) (\<lambda>hours.
                if hours > 0 then
                  then_do (mul_chk signed (as_u128 hours)) (\<lambda>inc.
                  then_do (add_chk (cum_funding_bps p) inc) (\<lambda>cum'.
                  then_do (mul_chk hours 3600) (\<lambda>adv.
                  then_do (add_chk (last_funding_ts p) adv) (\<lambda>ts'.
                    Inr (st(pa \<mapsto> p\<lparr>cum_funding_bps := cum', last_funding_ts := ts'\<rparr>))))))
                else Inr st)))))))"

subsection \<open>Core math\<close>

definition notional :: "u64 \<Rightarrow> u64 \<Rightarrow> abort + u128" where
  "notional px sz = mul_chk (as_u128 px) (as_u128 sz)"

definition required_init_margin :: "u128 \<Rightarrow> u64 \<Rightarrow> u64 \<Rightarrow> abort + u128" where
  "required_init_margin notional_q lev init_bps =
     then_do (div_chk notional_q (as_u128 lev)) (\<lambda>by_lev.
     then_do (mul_chk notional_q (as_u128 init_bps)) (\<lambda>prod.
     then_do (div_chk prod 10000) (\<lambda>by_floor.
       Inr (if by_lev > by_floor then by_lev else by_floor))))"

definition maint_margin :: "u128 \<Rightarrow> u64 \<Rightarrow> abort + u128" where
  "maint_margin notional_q maint_bps =
     then_do (mul_chk notional_q (as_u128 maint_bps)) (\<lambda>prod. div_chk prod 10000)"

definition funding_pnl :: "u64 \<Rightarrow> u64 \<Rightarrow> u8 \<Rightarrow> u128 \<Rightarrow> u128 \<Rightarrow> abort + u128" where
  "funding_pnl px sz sd cum_now cum_open =
     then_do (notional px sz) (\<lambda>n.
     then_do (if cum_now > cum_open then sub_chk cum_now cum_open
              else sub_chk cum_open cum_now) (\<lambda>delta_bps_hours.
     then_do (mul_chk n delta_bps_hours) (\<lambda>prod.
     then_do (div_chk prod 10000) (\<lambda>raw. Inr raw))))"

definition price_pnl :: "u64 \<Rightarrow> u64 \<Rightarrow> u64 \<Rightarrow> u8 \<Rightarrow> abort + u128" where
  "price_pnl cur_px epx sz sd =
     then_do (if cur_px > epx then sub_chk (as_u128 cur_px) (as_u128 epx)
              else sub_chk (as_u128 epx) (as_u128 cur_px)) (\<lambda>diff.
     then_do (mul_chk diff (as_u128 sz)) (\<lambda>move_q. Inr move_q))"

definition health :: "Pair \<Rightarrow> Position \<Rightarrow> abort + u128" where
  "health p pos =
     then_do (notional (mark_px p) (size_lots pos)) (\<lambda>n.
     then_do (maint_margin n (maint_margin_bps (cfg p))) (\<lambda>mm.
     then_do (price_pnl (mark_px p) (entry_px pos) (size_lots pos) (side pos)) (\<lambda>pp.
     then_do (add_chk (as_u128 (margin pos)) pp) (\<lambda>s1.
     then_do (funding_pnl (mark_px p) (size_lots pos) (side pos)
                (cum_funding_bps p) (funding_index_open pos)) (\<lambda>fp.
     then_do (add_chk s1 fp) (\<lambda>s2.
     then_do (sub_chk s2 mm) (\<lambda>h. Inr h)))))))"

subsection \<open>Trading\<close>

definition open_position ::
  "store \<Rightarrow> address \<Rightarrow> address \<Rightarrow> u64 \<Rightarrow> u64 \<Rightarrow> u8 \<Rightarrow> u64 \<Rightarrow> u64 \<Rightarrow> u64 \<Rightarrow> abort + store" where
  "open_position st admin user pid sz sd lev mg epx =
     (if \<not> sd < 2 then Inl (InvalidArgument E_BAD_SIDE)
      else if \<not> sz > 0 then Inl (InvalidArgument E_BAD_QTY)
      else
        let ua = user; pa = pair_object_address admin pid in
        case st pa of
          None \<Rightarrow> Inl (NotFound E_PAIR_NOT_FOUND)
        | Some pair \<Rightarrow>
            if \<not> (lev > 0 \<and> lev \<le> max_lev_bps (cfg pair)) then Inl (InvalidArgument E_BAD_LEV)
            else if positions pair ua \<noteq> None then Inl (AlreadyExists E_POS_EXISTS)
            else
              then_do (notional (mark_px pair) sz) (\<lambda>n.
              then_do (required_init_margin n lev (init_margin_bps (cfg pair))) (\<lambda>req.
                if \<not> as_u128 mg \<ge> req then Inl (InvalidArgument E_BAD_MARGIN)
                else Inr (st(pa \<mapsto> pair\<lparr>positions := (positions pair)(ua \<mapsto>
                  \<lparr> side = sd, size_lots = sz, entry_px = mark_px pair, margin = mg,
                    lev_bps = lev, funding_index_open = cum_funding_bps pair \<rparr>)\<rparr>)))))"

text \<open>
  \<open>close_position\<close> is an entry function and returns nothing; the second component
  of the result is the local \<open>equity_released\<close>, the amount the source leaves to a
  vault hook to transfer. The guard \<open>equity_released >= 0\<close> compares a \<open>u128\<close>.
\<close>

definition close_position ::
  "store \<Rightarrow> address \<Rightarrow> address \<Rightarrow> u64 \<Rightarrow> u64 \<Rightarrow> abort + (store \<times> u128)" where
  "close_position st admin user pid size_to_close =
     (let ua = user; pa = pair_object_address admin pid in
      case st pa of
        None \<Rightarrow> Inl (NotFound E_PAIR_NOT_FOUND)
      | Some pair \<Rightarrow>
          (case positions pair ua of
             None \<Rightarrow> Inl (NotFound E_POS_NOT_FOUND)
           | Some pos \<Rightarrow>
               if \<not> size_to_close > 0 then Inl (InvalidArgument E_BAD_QTY)
               else if \<not> size_lots pos \<ge> size_to_close then Inl (InvalidArgument E_BAD_QTY)
               else
                 then_do (mul_chk (as_u128 (margin pos)) (as_u128 size_to_close)) (\<lambda>prod.
                 then_do (div_chk prod (as_u128 (size_lots pos))) (\<lambda>share128.
                 then_do (as_u64 share128) (\<lambda>margin_share.
                 let price = mark_px pair in
                 then_do (price_pnl price (entry_px pos) size_to_close (side pos)) (\<lambda>pnl_price.
                 then_do (funding_pnl price size_to_close (side pos)
                            (cum_funding_bps pair) (funding_index_open pos)) (\<lambda>pnl_funding.
                 then_do (add_chk pnl_price pnl_funding) (\<lambda>pnl_total.
                 then_do (add_chk (as_u128 margin_share) pnl_total) (\<lambda>equity_released.
                   if \<not> equity_released \<ge> 0 then Inl (InvalidState E_UNSAFE)
                   else
                     then_do (sub_chk (size_lots pos) size_to_close) (\<lambda>size'.
                     then_do (sub_chk (margin pos) margin_share) (\<lambda>margin'.
                       let pos' = pos\<lparr>size_lots := size', margin := margin'\<rparr>;
                           tbl = (if size_lots pos' = 0 then (positions pair)(ua := None)
                                  else (positions pair)(ua \<mapsto> pos'))
                       in Inr (st(pa \<mapsto> pair\<lparr>positions := tbl\<rparr>), equity_released))))))))))))"

text \<open>\<open>liquidate\<close>: \<open>h\<close> is the \<open>u128\<close> that \<open>health\<close> returns, and the gate is \<open>h < 0\<close>.\<close>

definition liquidate :: "store \<Rightarrow> address \<Rightarrow> address \<Rightarrow> u64 \<Rightarrow> abort + store" where
  "liquidate st admin victim pid =
     (let pa = pair_object_address admin pid in
      case st pa of
        None \<Rightarrow> Inl (NotFound E_PAIR_NOT_FOUND)
      | Some pair \<Rightarrow>
          (case positions pair victim of
             None \<Rightarrow> Inl (NotFound E_POS_NOT_FOUND)
           | Some pos_ref \<Rightarrow>
               then_do (health pair pos_ref) (\<lambda>h.
                 if \<not> h < 0 then Inl (InvalidState E_UNSAFE)
                 else
                   let sd = side pos_ref; sz = size_lots pos_ref; mg = margin pos_ref in
                   then_do (price_pnl (mark_px pair) (entry_px pos_ref) sz sd) (\<lambda>pnl_price.
                   then_do (funding_pnl (mark_px pair) sz sd (cum_funding_bps pair)
                              (funding_index_open pos_ref)) (\<lambda>pnl_funding.
                   then_do (add_chk (as_u128 mg) pnl_price) (\<lambda>e1.
                   then_do (add_chk e1 pnl_funding) (\<lambda>equity.
                     Inr (st(pa \<mapsto> pair\<lparr>positions := (positions pair)(victim := None)\<rparr>)))))))))"

subsection \<open>Views\<close>

definition get_mark_px :: "store \<Rightarrow> address \<Rightarrow> u64 \<Rightarrow> abort + u64" where
  "get_mark_px st admin_addr pid =
     (case st (pair_object_address admin_addr pid) of
        None \<Rightarrow> Inl (NotFound E_PAIR_NOT_FOUND)
      | Some p \<Rightarrow> Inr (mark_px p))"

definition get_cum_funding_bps :: "store \<Rightarrow> address \<Rightarrow> u64 \<Rightarrow> abort + u128" where
  "get_cum_funding_bps st admin_addr pid =
     (case st (pair_object_address admin_addr pid) of
        None \<Rightarrow> Inl (NotFound E_PAIR_NOT_FOUND)
      | Some p \<Rightarrow> Inr (cum_funding_bps p))"

definition get_position :: "store \<Rightarrow> address \<Rightarrow> u64 \<Rightarrow> address \<Rightarrow> abort + Position option" where
  "get_position st admin_addr pid owner =
     (case st (pair_object_address admin_addr pid) of
        None \<Rightarrow> Inl (NotFound E_PAIR_NOT_FOUND)
      | Some p \<Rightarrow> Inr (positions p owner))"

subsection \<open>The spec's quantities\<close>

text \<open>
  The specification speaks of signed mathematical quantities. These definitions follow
  its words (on unbounded numbers); the theorems below compare them with what the
  code computes.
\<close>

definition abs_diff :: "nat \<Rightarrow> nat \<Rightarrow> nat" where
  "abs_diff a b = (if a > b then a - b else b - a)"

definition spec_maint_margin :: "Pair \<Rightarrow> Position \<Rightarrow> nat" where
  "spec_maint_margin p pos =
     unat (mark_px p) * unat (size_lots pos) * unat (maint_margin_bps (cfg p)) div 10000"

definition spec_price_pnl :: "Pair \<Rightarrow> Position \<Rightarrow> nat" where
  "spec_price_pnl p pos = abs_diff (unat (mark_px p)) (unat (entry_px pos)) * unat (size_lots pos)"

definition spec_funding_pnl :: "Pair \<Rightarrow> Position \<Rightarrow> nat" where
  "spec_funding_pnl p pos =
     unat (mark_px p) * unat (size_lots pos)
       * abs_diff (unat (cum_funding_bps p)) (unat (funding_index_open pos)) div 10000"

text \<open>\<open>health = margin + pricePnL + fundingPnL - maintenanceMargin\<close>, as a signed number.\<close>

definition spec_health :: "Pair \<Rightarrow> Position \<Rightarrow> int" where
  "spec_health p pos =
     int (unat (margin pos)) + int (spec_price_pnl p pos) + int (spec_funding_pnl p pos)
       - int (spec_maint_margin p pos)"

text \<open>\<open>rate = (seed mod (2*cap+1)) - cap\<close>, as a signed number.\<close>

definition spec_funding_rate :: "u128 \<Rightarrow> u64 \<Rightarrow> int" where
  "spec_funding_rate seed cap = int (unat seed mod (2 * unat cap + 1)) - int (unat cap)"

text \<open>
  The quantities of \<open>close\<close>: the pro-rata margin share \<open>floor(margin * sizeToClose / size)\<close>,
  the funding movement before the division by 10000, and
  \<open>equityReleased = marginShare + pricePnL + fundingPnL\<close> for the closed portion.
\<close>

definition spec_margin_share :: "Position \<Rightarrow> u64 \<Rightarrow> nat" where
  "spec_margin_share pos size_to_close =
     unat (margin pos) * unat size_to_close div unat (size_lots pos)"

definition spec_funding_raw :: "Pair \<Rightarrow> Position \<Rightarrow> u64 \<Rightarrow> nat" where
  "spec_funding_raw p pos size_to_close =
     unat (mark_px p) * unat size_to_close
       * abs_diff (unat (cum_funding_bps p)) (unat (funding_index_open pos))"

definition spec_equity_released :: "Pair \<Rightarrow> Position \<Rightarrow> u64 \<Rightarrow> nat" where
  "spec_equity_released p pos size_to_close =
     spec_margin_share pos size_to_close
       + abs_diff (unat (mark_px p)) (unat (entry_px pos)) * unat size_to_close
       + spec_funding_raw p pos size_to_close div 10000"

text \<open>The quantities \<open>push_funding\<close> works with: the cap, the seed's residue, whole hours elapsed.\<close>

definition funding_cap :: "Pair \<Rightarrow> nat" where
  "funding_cap p = unat (max_funding_bps_hour (cfg p))"

definition seed_residue :: "u128 \<Rightarrow> Pair \<Rightarrow> nat" where
  "seed_residue seed p = unat seed mod (2 * funding_cap p + 1)"

definition elapsed_hours :: "Pair \<Rightarrow> u64 \<Rightarrow> nat" where
  "elapsed_hours p now_ts = (unat now_ts - unat (last_funding_ts p)) div 3600"

subsection \<open>Executions\<close>

text \<open>
  The entry functions of the module, as calls; an execution is a list of calls, each
  committed or, on an abort, discarded.
\<close>

datatype call =
    CreatePair address u64 u64 u64 u64 u64 address address u64 u64
  | SetMarkPrice address u64 address u64
  | PushFunding address u64 address u128 u128 u64
  | OpenPosition address address u64 u64 u8 u64 u64 u64
  | ClosePosition address address u64 u64
  | Liquidate address address u64

fun dispatch :: "store \<Rightarrow> call \<Rightarrow> abort + store" where
  "dispatch st (CreatePair admin pid max_lev init_bps maint_bps max_funding orc vrf px now_ts) =
     create_pair st admin pid max_lev init_bps maint_bps max_funding orc vrf px now_ts"
| "dispatch st (SetMarkPrice admin pid caller new_px) = set_mark_price st admin pid caller new_px"
| "dispatch st (PushFunding admin pid caller funding_bps seed now_ts) =
     push_funding st admin pid caller funding_bps seed now_ts"
| "dispatch st (OpenPosition admin user pid sz sd lev mg epx) =
     open_position st admin user pid sz sd lev mg epx"
| "dispatch st (ClosePosition admin user pid size_to_close) =
     map_sum id fst (close_position st admin user pid size_to_close)"
| "dispatch st (Liquidate admin victim pid) = liquidate st admin victim pid"

definition exec :: "store \<Rightarrow> call \<Rightarrow> store" where
  "exec st c = commit st (dispatch st c)"

definition run :: "store \<Rightarrow> call list \<Rightarrow> store" where
  "run st cs = foldl exec st cs"

subsection \<open>Example ledgers\<close>

text \<open>
  Admin 1 creates pair 0 (50x, initial margin 20%, maintenance 10%, funding cap 50 bps
  per hour, price oracle 2, funding oracle 3, mark price 100, time 0); user 7 then opens
  a long of 10 lots with margin 200.
\<close>

definition demo_market :: store where
  "demo_market = commit Map.empty (create_pair Map.empty 1 0 5000 2000 1000 50 2 3 100 0)"

definition demo_open :: store where
  "demo_open = commit demo_market (open_position demo_market 1 7 0 10 0 5000 200 100)"

text \<open>
  \<open>create_pair\<close> puts no bound on the margin ratios: here initial and maintenance
  margin are both 200%. User 7 opens 10 lots at mark price 100 with the required margin
  2000, and the price oracle then sets the mark price to 300.
\<close>

definition thin_market :: store where
  "thin_market = commit Map.empty (create_pair Map.empty 1 0 5000 20000 20000 50 2 3 100 0)"

definition thin_opened :: store where
  "thin_opened = commit thin_market (open_position thin_market 1 7 0 10 0 5000 2000 100)"

definition thin_open :: store where
  "thin_open = commit thin_opened (set_mark_price thin_opened 1 0 2 300)"

text \<open>A market whose funding cap is \<open>2^63\<close> bps per hour: \<open>cap * 2 + 1\<close> leaves \<open>u64\<close>.\<close>

definition wide_cap_market :: store where
  "wide_cap_market =
     commit Map.empty (create_pair Map.empty 1 0 5000 2000 1000 9223372036854775808 2 3 100 0)"

text \<open>
  The market of \<open>demo_market\<close> at mark price 1: user 7 opens \<open>2^60\<close> lots with the
  required margin, the funding oracle accrues two hours at the cap (index 100), and the
  price oracle sets the mark price to \<open>2^64 - 1\<close>.
\<close>

definition stuck_market :: store where
  "stuck_market = commit Map.empty (create_pair Map.empty 1 0 5000 2000 1000 50 2 3 1 0)"

definition stuck_opened :: store where
  "stuck_opened = commit stuck_market
     (open_position stuck_market 1 7 0 1152921504606846976 0 5000 230584300921369395 1)"

definition stuck_funded :: store where
  "stuck_funded = commit stuck_opened (push_funding stuck_opened 1 0 3 0 100 7200)"

definition stuck_open :: store where
  "stuck_open = commit stuck_funded (set_mark_price stuck_funded 1 0 2 18446744073709551615)"

text \<open>On \<open>demo_market\<close> the funding oracle pushes seed 100 at time 7200: residue 100, two hours.\<close>

definition demo_funded :: store where
  "demo_funded = commit demo_market (push_funding demo_market 1 0 3 0 100 7200)"

text \<open>On \<open>stuck_market\<close> (mark price 1) user 8 opens 3 lots with margin 7.\<close>

definition small_open :: store where
  "small_open = commit stuck_market (open_position stuck_market 1 8 0 3 0 5000 7 1)"

section \<open>Checked arithmetic\<close>

lemma then_do_Inl: "then_do (Inl e) f = Inl e"
  by (simp add: then_do_def)

lemma then_do_Inr: "then_do (Inr v) f = f v"
  by (simp add: then_do_def)

lemma unat_as_u128: "unat (as_u128 x) = unat x"
proof -
  have "unat x < 2 ^ 64" using unsigned_less [of x] by simp
  then have "unat x < 2 ^ 128" by (rule less_le_trans) simp
  then show ?thesis
    by (simp add: as_u128_def unsigned_ucast_eq take_bit_nat_eq_self)
qed

lemma unat_u64_bound: "unat (x::u64) < 18446744073709551616"
  using unsigned_less [of x] by simp

lemma u64_prod_bound: "unat (a::u64) * unat (b::u64) < 2 ^ 128"
proof -
  have "unat a * unat b < 2 ^ 64 * 2 ^ 64"
    using unsigned_less [of a] unsigned_less [of b] by (intro mult_strict_mono) auto
  then show ?thesis by simp
qed

lemma mul_chk_u64: "mul_chk (as_u128 a) (as_u128 b) = Inr (as_u128 a * as_u128 b)"
  using u64_prod_bound [of a b] by (simp add: mul_chk_def unat_as_u128)

lemma unat_mul_u64: "unat (as_u128 a * as_u128 b) = unat a * unat b"
  using u64_prod_bound [of a b] by (simp add: unat_word_ariths unat_as_u128)

lemma notional_eq: "notional px sz = Inr (as_u128 px * as_u128 sz)"
  by (simp add: notional_def mul_chk_u64)

lemma add_chk_Inr: "add_chk a b = Inr c \<Longrightarrow> unat c = unat a + unat b"
  by (auto simp: add_chk_def unat_word_ariths split: if_splits)

lemma sub_chk_Inr: "sub_chk a b = Inr c \<Longrightarrow> unat c = unat a - unat b \<and> unat b \<le> unat a"
  by (auto simp: sub_chk_def unat_sub word_le_nat_alt split: if_splits)

lemma then_do_eq_Inr: "then_do m f = Inr r \<longleftrightarrow> (\<exists>v. m = Inr v \<and> f v = Inr r)"
  by (cases m) (simp_all add: then_do_def)

lemma then_do_eq_Inl: "then_do m f = Inl e \<longleftrightarrow> m = Inl e \<or> (\<exists>v. m = Inr v \<and> f v = Inl e)"
  by (cases m) (simp_all add: then_do_def)

lemma add_chk_Inl: "add_chk a b = Inl e \<Longrightarrow> e = ArithmeticError"
  by (simp add: add_chk_def split: if_splits)
lemma sub_chk_Inl: "sub_chk a b = Inl e \<Longrightarrow> e = ArithmeticError"
  by (simp add: sub_chk_def split: if_splits)
lemma mul_chk_Inl: "mul_chk a b = Inl e \<Longrightarrow> e = ArithmeticError"
  by (simp add: mul_chk_def split: if_splits)
lemma div_chk_Inl: "div_chk a b = Inl e \<Longrightarrow> e = ArithmeticError"
  by (simp add: div_chk_def split: if_splits)

lemma as_u128_le: "as_u128 a \<le> as_u128 b \<longleftrightarrow> a \<le> b"
  by (simp add: word_le_nat_alt unat_as_u128)

lemma sub_chk_u64:
  "b \<le> a \<Longrightarrow> \<exists>d. sub_chk (as_u128 a) (as_u128 b) = Inr d \<and> unat d = unat a - unat b"
  by (simp add: sub_chk_def as_u128_le unat_sub unat_as_u128)

lemma mul_chk_small:
  assumes "unat d < 2 ^ 64"
  shows "\<exists>v. mul_chk (d::u128) (as_u128 s) = Inr v \<and> unat v = unat d * unat s"
proof -
  have "unat d * unat s < 2 ^ 64 * 2 ^ 64"
    using assms unat_u64_bound [of s] by (intro mult_strict_mono) auto
  then have "unat d * unat (as_u128 s) < 2 ^ 128" by (simp add: unat_as_u128)
  then show ?thesis
    by (simp add: mul_chk_def unat_word_ariths unat_as_u128)
qed

lemma price_pnl_value:
  "\<exists>v. price_pnl cur epx sz sd = Inr v \<and> unat v = abs_diff (unat cur) (unat epx) * unat sz"
proof (cases "cur > epx")
  case True
  then have "epx \<le> cur" by (rule less_imp_le)
  from sub_chk_u64 [OF this] obtain d where
    d: "sub_chk (as_u128 cur) (as_u128 epx) = Inr d" "unat d = unat cur - unat epx" by blast
  have "unat d < 2 ^ 64" using d(2) unat_u64_bound [of cur] by simp
  from mul_chk_small [OF this, of sz] obtain v where
    "mul_chk d (as_u128 sz) = Inr v" "unat v = unat d * unat sz" by auto
  with d True show ?thesis
    by (simp add: price_pnl_def then_do_Inr abs_diff_def word_less_nat_alt)
next
  case False
  then have "cur \<le> epx" by (simp add: not_less)
  from sub_chk_u64 [OF this] obtain d where
    d: "sub_chk (as_u128 epx) (as_u128 cur) = Inr d" "unat d = unat epx - unat cur" by blast
  have "unat d < 2 ^ 64" using d(2) unat_u64_bound [of epx] by simp
  from mul_chk_small [OF this, of sz] obtain v where
    "mul_chk d (as_u128 sz) = Inr v" "unat v = unat d * unat sz" by auto
  with d False show ?thesis
    by (simp add: price_pnl_def then_do_Inr abs_diff_def word_less_nat_alt)
qed

lemma price_pnl_Inl: "price_pnl cur epx sz sd \<noteq> Inl e"
  using price_pnl_value [of cur epx sz sd] by auto

lemma maint_margin_Inl: "maint_margin n b = Inl e \<Longrightarrow> e = ArithmeticError"
  by (auto simp: maint_margin_def then_do_eq_Inl dest: mul_chk_Inl div_chk_Inl)

lemma funding_pnl_Inl: "funding_pnl px sz sd a b = Inl e \<Longrightarrow> e = ArithmeticError"
  by (auto simp: funding_pnl_def notional_eq then_do_Inr then_do_eq_Inl split: if_splits dest: mul_chk_Inl div_chk_Inl sub_chk_Inl)

lemma health_Inl: "health p pos = Inl e \<Longrightarrow> e = ArithmeticError"
  by (auto simp: health_def notional_eq then_do_Inr then_do_eq_Inl
      simp: price_pnl_Inl dest: maint_margin_Inl funding_pnl_Inl add_chk_Inl sub_chk_Inl)

lemma abs_diff_chk:
  "\<exists>d. (if a > b then sub_chk a b else sub_chk b a) = Inr d \<and> unat d = abs_diff (unat a) (unat b)"
proof (cases "a > b")
  case True
  then have "b \<le> a" by (rule less_imp_le)
  with True show ?thesis
    by (simp add: sub_chk_def unat_sub abs_diff_def word_less_nat_alt)
next
  case False
  then have "a \<le> b" by (simp add: not_less)
  with False show ?thesis
    by (simp add: sub_chk_def unat_sub abs_diff_def word_less_nat_alt)
qed

lemma div_chk_10000: "div_chk (x::u128) 10000 = Inr (of_nat (unat x div 10000))"
proof -
  have "x div 10000 = of_nat (unat x div unat (10000::u128))" by (rule word_arith_nat_div)
  then show ?thesis by (simp add: div_chk_def)
qed

lemma funding_pnl_value:
  "funding_pnl px sz sd cum_now cum_open =
     (if unat px * unat sz * abs_diff (unat cum_now) (unat cum_open) < 2 ^ 128
      then Inr (of_nat (unat px * unat sz * abs_diff (unat cum_now) (unat cum_open) div 10000))
      else Inl ArithmeticError)"
proof -
  obtain d where d: "(if cum_now > cum_open then sub_chk cum_now cum_open
      else sub_chk cum_open cum_now) = Inr d" "unat d = abs_diff (unat cum_now) (unat cum_open)"
    using abs_diff_chk [of cum_open cum_now] by blast
  let ?n = "as_u128 px * as_u128 sz"
  have n: "unat ?n = unat px * unat sz" by (rule unat_mul_u64)
  have unfold: "funding_pnl px sz sd cum_now cum_open =
      then_do (mul_chk ?n d) (\<lambda>prod. then_do (div_chk prod 10000) Inr)"
    using d(1) by (simp add: funding_pnl_def notional_eq then_do_Inr)
  show ?thesis
  proof (cases "unat ?n * unat d < 2 ^ 128")
    case True
    then have "unat (?n * d) = unat ?n * unat d" by (simp only: unat_mult_lem [symmetric] len_of_numeral_defs) simp
    with True show ?thesis
      unfolding unfold by (simp add: mul_chk_def then_do_Inr div_chk_10000 n d(2))
  next
    case False
    then show ?thesis
      unfolding unfold by (simp add: mul_chk_def then_do_Inl n d(2))
  qed
qed

lemma unat_of_nat_u128: "n < 2 ^ 128 \<Longrightarrow> unat (of_nat n :: u128) = n"
  by (simp add: unat_of_nat)

section \<open>Health and liquidation\<close>

lemma maint_margin_value:
  "maint_margin n b =
     (if unat n * unat b < 2 ^ 128 then Inr (of_nat (unat n * unat b div 10000))
      else Inl ArithmeticError)"
proof (cases "unat n * unat (as_u128 b) < 2 ^ 128")
  case True
  then have "unat (n * as_u128 b) = unat n * unat (as_u128 b)"
    by (simp only: unat_mult_lem [symmetric] len_of_numeral_defs) simp
  with True show ?thesis
    by (simp add: maint_margin_def mul_chk_def then_do_Inr div_chk_10000 unat_as_u128)
next
  case False
  then show ?thesis
    by (simp add: maint_margin_def mul_chk_def then_do_Inl unat_as_u128)
qed

lemma unat_of_nat_div: "n < 2 ^ 128 \<Longrightarrow> unat (of_nat (n div 10000) :: u128) = n div 10000"
proof -
  assume "n < 2 ^ 128"
  moreover have "n div 10000 \<le> n" by simp
  ultimately have "n div 10000 < 2 ^ 128" by (rule le_less_trans [rotated])
  then show ?thesis by (rule unat_of_nat_u128)
qed

lemma maint_margin_Inr:
  "maint_margin n b = Inr v \<Longrightarrow> unat v = unat n * unat b div 10000"
  by (auto simp: maint_margin_value unat_of_nat_div split: if_splits)

lemma funding_pnl_Inr:
  "funding_pnl px sz sd a b = Inr v \<Longrightarrow> unat v = unat px * unat sz * abs_diff (unat a) (unat b) div 10000"
  by (auto simp: funding_pnl_value unat_of_nat_div split: if_splits)

lemma health_Inr:
  assumes "health p pos = Inr h"
  shows "int (unat h) = spec_health p pos"
proof -
  from assms obtain mm pp s1 fp s2 where
    mm: "maint_margin (as_u128 (mark_px p) * as_u128 (size_lots pos)) (maint_margin_bps (cfg p)) = Inr mm"
    and pp: "price_pnl (mark_px p) (entry_px pos) (size_lots pos) (side pos) = Inr pp"
    and s1: "add_chk (as_u128 (margin pos)) pp = Inr s1"
    and fp: "funding_pnl (mark_px p) (size_lots pos) (side pos) (cum_funding_bps p) (funding_index_open pos) = Inr fp"
    and s2: "add_chk s1 fp = Inr s2"
    and h: "sub_chk s2 mm = Inr h"
    by (auto simp: health_def notional_eq then_do_Inr then_do_eq_Inr)
  have 1: "unat mm = spec_maint_margin p pos"
    using maint_margin_Inr [OF mm] by (simp add: spec_maint_margin_def unat_mul_u64)
  have 2: "unat pp = spec_price_pnl p pos"
    using price_pnl_value [of "mark_px p" "entry_px pos" "size_lots pos" "side pos"] pp
    by (simp add: spec_price_pnl_def)
  have 3: "unat fp = spec_funding_pnl p pos"
    using funding_pnl_Inr [OF fp] by (simp add: spec_funding_pnl_def)
  have 4: "unat s1 = unat (margin pos) + unat pp"
    using add_chk_Inr [OF s1] by (simp add: unat_as_u128)
  have 5: "unat s2 = unat s1 + unat fp" using add_chk_Inr [OF s2] .
  have 6: "unat h = unat s2 - unat mm" "unat mm \<le> unat s2" using sub_chk_Inr [OF h] by auto
  show ?thesis
    using 6 by (simp add: spec_health_def 1 2 3 4 5)
qed

lemma health_negative:
  assumes "spec_health p pos < 0"
  shows "health p pos = Inl ArithmeticError"
proof (cases "health p pos")
  case (Inl e)
  then show ?thesis using health_Inl [OF Inl] by simp
next
  case (Inr h)
  have "(0::int) \<le> int (unat h)" by (rule of_nat_0_le_iff)
  with health_Inr [OF Inr] assms have False by linarith
  then show ?thesis ..
qed

lemma liquidate_result:
  "liquidate st admin victim pid =
     (case st admin of
        None \<Rightarrow> Inl (NotFound E_PAIR_NOT_FOUND)
      | Some pair \<Rightarrow>
          (case positions pair victim of
             None \<Rightarrow> Inl (NotFound E_POS_NOT_FOUND)
           | Some pos \<Rightarrow>
               (case health pair pos of
                  Inl e \<Rightarrow> Inl ArithmeticError
                | Inr h \<Rightarrow> Inl (InvalidState E_UNSAFE))))"
  by (auto simp: liquidate_def pair_object_address_def then_do_def
      split: option.splits sum.splits dest: health_Inl)

section \<open>Funding accrual\<close>

lemma span_overflow:
  assumes "\<not> 2 * unat (cap::u64) + 1 < 2 ^ 64"
  shows "then_do (mul_chk cap 2) (\<lambda>cap2. then_do (add_chk cap2 1) f) = Inl ArithmeticError"
proof (cases "unat cap * 2 < 2 ^ 64")
  case True
  then have "unat (cap * 2) = unat cap * 2"
    by (simp add: unat_word_ariths)
  with True assms show ?thesis
    by (simp add: mul_chk_def add_chk_def then_do_def)
next
  case False
  then show ?thesis by (simp add: mul_chk_def then_do_def)
qed

lemma span_ok:
  assumes "2 * unat (cap::u64) + 1 < 2 ^ 64"
  shows "then_do (mul_chk cap 2) (\<lambda>cap2. then_do (add_chk cap2 1) f) = f (cap * 2 + 1)
           \<and> unat (cap * 2 + 1) = 2 * unat cap + 1"
proof -
  from assms have a: "unat cap * 2 < 2 ^ 64" by simp
  then have b: "unat (cap * 2) = unat cap * 2" by (simp add: unat_word_ariths)
  from assms b have c: "unat (cap * 2) + 1 < 2 ^ 64" by simp
  then have d: "unat (cap * 2 + 1) = unat (cap * 2) + 1" by (simp add: unat_word_ariths)
  from a c b d show ?thesis
    by (simp add: mul_chk_def add_chk_def then_do_def)
qed

lemma residue_ok:
  assumes "unat (span::u64) = n" "0 < n"
  shows "then_do (mod_chk (seed::u128) (as_u128 span)) (\<lambda>r128. then_do (as_u64 r128) f)
             = f (ucast (seed mod as_u128 span))
           \<and> unat (ucast (seed mod as_u128 span) :: u64) = unat seed mod n"
proof -
  have nz: "as_u128 span \<noteq> 0"
  proof
    assume "as_u128 span = 0"
    then have "unat (as_u128 span) = 0" by simp
    with assms show False by (simp add: unat_as_u128)
  qed
  have m: "unat (seed mod as_u128 span) = unat seed mod n"
    using assms by (simp add: unat_mod unat_as_u128)
  have "unat seed mod n < n" using assms by simp
  also have "n < 2 ^ 64" using assms unat_u64_bound [of span] by simp
  finally have lt: "unat (seed mod as_u128 span) < 2 ^ 64" using m by simp
  then have "unat (ucast (seed mod as_u128 span) :: u64) = unat seed mod n"
    using m by (simp add: unsigned_ucast_eq take_bit_nat_eq_self)
  with nz lt show ?thesis
    by (simp add: mod_chk_def as_u64_def then_do_def)
qed

lemma accrue_tail:
  fixes signed :: u128 and dt :: u64 and p :: Pair and st :: store and pa :: address
  assumes sg: "unat signed < 2 ^ 64"
    and dt: "unat (last_funding_ts p) + unat dt < 2 ^ 64"
  defines "hrs \<equiv> unat dt div 3600"
  defines "tail \<equiv> then_do (div_chk dt 3600) (\<lambda>hours.
                if hours > 0 then
                  then_do (mul_chk signed (as_u128 hours)) (\<lambda>inc.
                  then_do (add_chk (cum_funding_bps p) inc) (\<lambda>cum'.
                  then_do (mul_chk hours 3600) (\<lambda>adv.
                  then_do (add_chk (last_funding_ts p) adv) (\<lambda>ts'.
                    Inr (st(pa \<mapsto> p\<lparr>cum_funding_bps := cum', last_funding_ts := ts'\<rparr>))))))
                else Inr st)"
  shows "hrs = 0 \<Longrightarrow> tail = Inr st"
    and "0 < hrs \<Longrightarrow> \<not> unat (cum_funding_bps p) + unat signed * hrs < 2 ^ 128
           \<Longrightarrow> tail = Inl ArithmeticError"
    and "0 < hrs \<Longrightarrow> unat (cum_funding_bps p) + unat signed * hrs < 2 ^ 128
           \<Longrightarrow> \<exists>cum' ts'. tail = Inr (st(pa \<mapsto> p\<lparr>cum_funding_bps := cum', last_funding_ts := ts'\<rparr>))
                 \<and> unat cum' = unat (cum_funding_bps p) + unat signed * hrs
                 \<and> unat ts' = unat (last_funding_ts p) + hrs * 3600"
proof -
  let ?h = "dt div 3600"
  have h: "unat ?h = hrs" by (simp add: hrs_def unat_div)
  have d: "div_chk dt 3600 = Inr ?h" by (simp add: div_chk_def)
  have pos: "?h > 0 \<longleftrightarrow> 0 < hrs"
    using h by (simp add: word_less_nat_alt)
  obtain inc where inc: "mul_chk signed (as_u128 ?h) = Inr inc" "unat inc = unat signed * hrs"
    using mul_chk_small [OF sg, of ?h] h by auto
  have le: "hrs * 3600 \<le> unat dt" by (simp add: hrs_def)
  then have "unat ?h * unat (3600::u64) < 2 ^ 64"
    using unat_u64_bound [of dt] h by simp
  then have adv: "mul_chk ?h 3600 = Inr (?h * 3600)" "unat (?h * 3600) = hrs * 3600"
    using h by (simp_all add: mul_chk_def unat_word_ariths)
  have "unat (last_funding_ts p) + unat (?h * 3600) < 2 ^ 64"
    using adv(2) le dt by simp
  then have ts: "add_chk (last_funding_ts p) (?h * 3600) = Inr (last_funding_ts p + ?h * 3600)"
    "unat (last_funding_ts p + ?h * 3600) = unat (last_funding_ts p) + hrs * 3600"
    using adv(2) by (simp_all add: add_chk_def unat_word_ariths)
  show "hrs = 0 \<Longrightarrow> tail = Inr st"
    using pos d by (simp add: tail_def then_do_def)
  show "0 < hrs \<Longrightarrow> \<not> unat (cum_funding_bps p) + unat signed * hrs < 2 ^ 128
           \<Longrightarrow> tail = Inl ArithmeticError"
    using pos d inc by (simp add: tail_def then_do_def add_chk_def)
  show "\<exists>cum' ts'. tail = Inr (st(pa \<mapsto> p\<lparr>cum_funding_bps := cum', last_funding_ts := ts'\<rparr>))
                 \<and> unat cum' = unat (cum_funding_bps p) + unat signed * hrs
                 \<and> unat ts' = unat (last_funding_ts p) + hrs * 3600"
    if "0 < hrs" "unat (cum_funding_bps p) + unat signed * hrs < 2 ^ 128"
  proof -
    from that(2) inc(2) have c: "add_chk (cum_funding_bps p) inc = Inr (cum_funding_bps p + inc)"
      "unat (cum_funding_bps p + inc) = unat (cum_funding_bps p) + unat signed * hrs"
      by (simp_all add: add_chk_def unat_word_ariths)
    have "tail = Inr (st(pa \<mapsto> p\<lparr>cum_funding_bps := cum_funding_bps p + inc,
        last_funding_ts := last_funding_ts p + ?h * 3600\<rparr>))"
      using pos d inc(1) adv(1) ts(1) c(1) that(1) by (simp add: tail_def then_do_def)
    with c(2) ts(2) show ?thesis by blast
  qed
qed

lemma push_funding_cases:
  fixes st :: store and admin caller :: address and pid now_ts :: u64 and funding_bps seed :: u128
  assumes p: "st admin = Some p" and auth: "caller = vrf_oracle p"
    and later: "last_funding_ts p < now_ts"
  defines "c \<equiv> funding_cap p" and "r \<equiv> seed_residue seed p" and "hrs \<equiv> elapsed_hours p now_ts"
  defines "pf \<equiv> push_funding st admin pid caller funding_bps seed now_ts"
  shows "\<not> 2 * c + 1 < 2 ^ 64 \<Longrightarrow> pf = Inl ArithmeticError"
    and "2 * c + 1 < 2 ^ 64 \<Longrightarrow> r < c \<Longrightarrow> pf = Inl ArithmeticError"
    and "2 * c + 1 < 2 ^ 64 \<Longrightarrow> c \<le> r \<Longrightarrow> hrs = 0 \<Longrightarrow> pf = Inr st"
    and "2 * c + 1 < 2 ^ 64 \<Longrightarrow> c \<le> r \<Longrightarrow> 0 < hrs
           \<Longrightarrow> \<not> unat (cum_funding_bps p) + (r - c) * hrs < 2 ^ 128 \<Longrightarrow> pf = Inl ArithmeticError"
    and "2 * c + 1 < 2 ^ 64 \<Longrightarrow> c \<le> r \<Longrightarrow> 0 < hrs
           \<Longrightarrow> unat (cum_funding_bps p) + (r - c) * hrs < 2 ^ 128
           \<Longrightarrow> \<exists>cum' ts'. pf = Inr (st(admin \<mapsto> p\<lparr>cum_funding_bps := cum', last_funding_ts := ts'\<rparr>))
                 \<and> unat cum' = unat (cum_funding_bps p) + (r - c) * hrs
                 \<and> unat ts' = unat (last_funding_ts p) + hrs * 3600"
proof -
  let ?cap = "max_funding_bps_hour (cfg p)"
  let ?dt = "now_ts - last_funding_ts p"
  let ?tail = "\<lambda>signed. then_do (div_chk ?dt 3600) (\<lambda>hours.
                if hours > 0 then
                  then_do (mul_chk signed (as_u128 hours)) (\<lambda>inc.
                  then_do (add_chk (cum_funding_bps p) inc) (\<lambda>cum'.
                  then_do (mul_chk hours 3600) (\<lambda>adv.
                  then_do (add_chk (last_funding_ts p) adv) (\<lambda>ts'.
                    Inr (st(admin \<mapsto> p\<lparr>cum_funding_bps := cum', last_funding_ts := ts'\<rparr>))))))
                else Inr st)"
  let ?body = "\<lambda>span. then_do (mod_chk seed (as_u128 span)) (\<lambda>r128.
                 then_do (as_u64 r128) (\<lambda>r.
                 then_do (sub_chk (as_u128 r) (as_u128 ?cap)) ?tail))"
  from later have le: "last_funding_ts p \<le> now_ts" by (rule less_imp_le)
  have dt: "unat ?dt = unat now_ts - unat (last_funding_ts p)"
    using le by (rule unat_sub)
  from later have "unat (last_funding_ts p) < unat now_ts" by (simp add: word_less_nat_alt)
  with dt have dtpos: "0 < unat ?dt" by simp
  then have dtnz: "?dt \<noteq> 0" by (auto simp: unat_gt_0)
  have unfold: "pf = then_do (mul_chk ?cap 2) (\<lambda>cap2. then_do (add_chk cap2 1) ?body)"
    using p auth later dtnz
    by (simp add: pf_def push_funding_def pair_object_address_def Let_def)
  have hrs: "unat ?dt div 3600 = hrs" by (simp add: hrs_def elapsed_hours_def dt)
  have fits: "unat (last_funding_ts p) + unat ?dt < 2 ^ 64"
    using dt le unat_u64_bound [of now_ts] by (simp add: word_le_nat_alt)
  show "\<not> 2 * c + 1 < 2 ^ 64 \<Longrightarrow> pf = Inl ArithmeticError"
    unfolding unfold c_def funding_cap_def by (rule span_overflow)
  assume span: "2 * c + 1 < 2 ^ 64"
  let ?span = "?cap * 2 + 1"
  from span have s: "pf = ?body ?span" "unat ?span = 2 * c + 1"
    unfolding unfold c_def funding_cap_def using span_ok [of ?cap ?body] by simp_all
  let ?r = "ucast (seed mod as_u128 ?span) :: u64"
  have res: "?body ?span = then_do (sub_chk (as_u128 ?r) (as_u128 ?cap)) ?tail" "unat ?r = r"
    using residue_ok [OF s(2), of seed "\<lambda>r. then_do (sub_chk (as_u128 r) (as_u128 ?cap)) ?tail"]
    by (simp_all add: r_def seed_residue_def c_def)
  show "pf = Inl ArithmeticError" if "r < c"
  proof -
    from that have "\<not> ?cap \<le> ?r"
      using res(2) by (simp add: word_le_nat_alt c_def funding_cap_def)
    then have "sub_chk (as_u128 ?r) (as_u128 ?cap) = Inl ArithmeticError"
      by (simp add: sub_chk_def as_u128_le)
    then show ?thesis
      by (simp only: s(1) res(1) then_do_Inl)
  qed
  assume cr: "c \<le> r"
  then have "?cap \<le> ?r" using res(2) by (simp add: word_le_nat_alt c_def funding_cap_def)
  from sub_chk_u64 [OF this] obtain signed where
    sg: "sub_chk (as_u128 ?r) (as_u128 ?cap) = Inr signed" "unat signed = r - c"
    using res(2) by (auto simp: c_def funding_cap_def)
  have small: "unat signed < 2 ^ 64"
    using sg(2) res(2) unat_u64_bound [of ?r] by simp
  have pf: "pf = ?tail signed"
    by (simp only: s(1) res(1) sg(1) then_do_Inr)
  note tail = accrue_tail [OF small fits, of st admin, unfolded hrs sg(2)]
  show "hrs = 0 \<Longrightarrow> pf = Inr st"
    unfolding pf by (rule tail(1))
  show "0 < hrs \<Longrightarrow> \<not> unat (cum_funding_bps p) + (r - c) * hrs < 2 ^ 128 \<Longrightarrow> pf = Inl ArithmeticError"
    unfolding pf by (rule tail(2))
  show "0 < hrs \<Longrightarrow> unat (cum_funding_bps p) + (r - c) * hrs < 2 ^ 128
           \<Longrightarrow> \<exists>cum' ts'. pf = Inr (st(admin \<mapsto> p\<lparr>cum_funding_bps := cum', last_funding_ts := ts'\<rparr>))
                 \<and> unat cum' = unat (cum_funding_bps p) + (r - c) * hrs
                 \<and> unat ts' = unat (last_funding_ts p) + hrs * 3600"
    unfolding pf by (rule tail(3))
qed

section \<open>The example ledgers, evaluated\<close>

lemmas ledger_defs = commit_def create_pair_def open_position_def pair_object_address_def
  notional_def required_init_margin_def then_do_def mul_chk_def div_chk_def add_chk_def sub_chk_def
  mod_chk_def as_u128_def as_u64_def Let_def

lemma demo_market_eq:
  "demo_market = [1 \<mapsto> \<lparr> pair_id = 0,
      cfg = \<lparr> max_lev_bps = 5000, init_margin_bps = 2000, maint_margin_bps = 1000, max_funding_bps_hour = 50 \<rparr>,
      mark_px = 100, cum_funding_bps = 0, last_funding_ts = 0, price_oracle = 2, vrf_oracle = 3,
      positions = Map.empty \<rparr>]"
  by (simp add: demo_market_def ledger_defs)

lemma thin_open_eq:
  "thin_open = [1 \<mapsto> \<lparr> pair_id = 0,
      cfg = \<lparr> max_lev_bps = 5000, init_margin_bps = 20000, maint_margin_bps = 20000, max_funding_bps_hour = 50 \<rparr>,
      mark_px = 300, cum_funding_bps = 0, last_funding_ts = 0, price_oracle = 2, vrf_oracle = 3,
      positions = [7 \<mapsto> \<lparr> side = 0, size_lots = 10, entry_px = 100, margin = 2000, lev_bps = 5000,
         funding_index_open = 0 \<rparr>] \<rparr>]"
  by (simp add: thin_open_def thin_opened_def thin_market_def set_mark_price_def ledger_defs)

lemma demo_open_eq:
  "demo_open = [1 \<mapsto> \<lparr> pair_id = 0,
      cfg = \<lparr> max_lev_bps = 5000, init_margin_bps = 2000, maint_margin_bps = 1000, max_funding_bps_hour = 50 \<rparr>,
      mark_px = 100, cum_funding_bps = 0, last_funding_ts = 0, price_oracle = 2, vrf_oracle = 3,
      positions = [7 \<mapsto> \<lparr> side = 0, size_lots = 10, entry_px = 100, margin = 200, lev_bps = 5000,
         funding_index_open = 0 \<rparr>] \<rparr>]"
  by (simp add: demo_open_def demo_market_def ledger_defs)

lemma stuck_open_eq:
  "stuck_open = [1 \<mapsto> \<lparr> pair_id = 0,
      cfg = \<lparr> max_lev_bps = 5000, init_margin_bps = 2000, maint_margin_bps = 1000, max_funding_bps_hour = 50 \<rparr>,
      mark_px = 18446744073709551615, cum_funding_bps = 100, last_funding_ts = 7200,
      price_oracle = 2, vrf_oracle = 3,
      positions = [7 \<mapsto> \<lparr> side = 0, size_lots = 1152921504606846976, entry_px = 1,
         margin = 230584300921369395, lev_bps = 5000, funding_index_open = 0 \<rparr>] \<rparr>]"
  by (simp add: stuck_open_def stuck_funded_def stuck_opened_def stuck_market_def
      set_mark_price_def push_funding_def ledger_defs)

section \<open>Liquidation\<close>

text \<open>
  C1 (the code at the failing input). The claim is that \<open>liquidate\<close> deletes the position
  whenever \<open>health < 0\<close>. On the ledger \<open>thin_open\<close> the position of user 7 has health
  \<open>2000 + 2000 + 0 - 6000 = -2000\<close>, yet \<open>liquidate\<close> aborts with an arithmetic error (the
  \<open>u128\<close> subtraction in \<open>health\<close> goes below zero) and the position is still there.
\<close>

theorem C1_liquidate_aborts_on_negative_health:
  "spec_health (the (thin_open 1)) (the (positions (the (thin_open 1)) 7)) = - 2000
   \<and> liquidate thin_open 1 7 0 = Inl ArithmeticError
   \<and> positions (the (commit thin_open (liquidate thin_open 1 7 0) 1)) 7 \<noteq> None"
  by (simp add: thin_open_eq spec_health_def spec_price_pnl_def spec_funding_pnl_def
      spec_maint_margin_def abs_diff_def liquidate_def health_def maint_margin_def
      price_pnl_def funding_pnl_def ledger_defs)

section \<open>Directionless PnL\<close>

text \<open>
  C7, amended. \<open>price_pnl\<close> and \<open>funding_pnl\<close> do not depend on the side: any two sides
  give the same result. \<open>price_pnl\<close> always returns the magnitude \<open>|cur - entry| * size\<close>.
  \<open>funding_pnl\<close> returns the magnitude \<open>price * size * |cum_now - cum_open| div 10000\<close>
  whenever \<open>price * size * |cum_now - cum_open|\<close> is within \<open>u128\<close>, and aborts with the
  arithmetic error otherwise, for either side alike. Both values are unsigned, hence
  never negative, and the health of a position is the same whichever side it has.
\<close>

theorem C7_directionless_pnl:
  "price_pnl cur epx sz sd = price_pnl cur epx sz sd'
   \<and> funding_pnl px sz sd cum_now cum_open = funding_pnl px sz sd' cum_now cum_open
   \<and> (\<exists>v. price_pnl cur epx sz sd = Inr v \<and> unat v = abs_diff (unat cur) (unat epx) * unat sz)
   \<and> funding_pnl px sz sd cum_now cum_open =
       (if unat px * unat sz * abs_diff (unat cum_now) (unat cum_open) < 2 ^ 128
        then Inr (of_nat (unat px * unat sz * abs_diff (unat cum_now) (unat cum_open) div 10000))
        else Inl ArithmeticError)
   \<and> health p (pos\<lparr>side := sd\<rparr>) = health p (pos\<lparr>side := sd'\<rparr>)"
proof -
  have 1: "price_pnl cur epx sz sd = price_pnl cur epx sz sd'"
    by (simp add: price_pnl_def)
  have 2: "funding_pnl px sz sd cum_now cum_open = funding_pnl px sz sd' cum_now cum_open"
    by (simp add: funding_pnl_def)
  have 3: "health p (pos\<lparr>side := sd\<rparr>) = health p (pos\<lparr>side := sd'\<rparr>)"
    by (simp add: health_def price_pnl_def funding_pnl_def)
  show ?thesis
    using 1 2 3 price_pnl_value [of cur epx sz sd] funding_pnl_value [of px sz sd cum_now cum_open]
    by blast
qed

text \<open>
  C7 as stated (\<open>fundingPnL\<close> returns the magnitude for every price, size and pair of
  indices) fails: for the position of user 7 on \<open>stuck_open\<close> (mark price \<open>2^64 - 1\<close>,
  \<open>2^60\<close> lots, index 100 against snapshot 0) the product leaves \<open>u128\<close> and
  \<open>funding_pnl\<close> aborts, for the long and for the short side.
\<close>

theorem C7_funding_pnl_counterexample:
  "stuck_open 1 \<noteq> None \<and> positions (the (stuck_open 1)) 7 \<noteq> None
   \<and> funding_pnl (mark_px (the (stuck_open 1)))
         (size_lots (the (positions (the (stuck_open 1)) 7))) 0
         (cum_funding_bps (the (stuck_open 1)))
         (funding_index_open (the (positions (the (stuck_open 1)) 7))) = Inl ArithmeticError
   \<and> funding_pnl (mark_px (the (stuck_open 1)))
         (size_lots (the (positions (the (stuck_open 1)) 7))) 1
         (cum_funding_bps (the (stuck_open 1)))
         (funding_index_open (the (positions (the (stuck_open 1)) 7))) = Inl ArithmeticError
   \<and> funding_pnl 18446744073709551615 1152921504606846976 0 100 0 = Inl ArithmeticError"
  by (simp add: stuck_open_eq funding_pnl_def notional_def then_do_def mul_chk_def sub_chk_def
      div_chk_def as_u128_def)

text \<open>The amended C7 at a price move of 20 on 10 lots, and at the overflowing input, on both sides.\<close>

theorem C7_directionless_pnl_witness:
  "price_pnl 120 100 10 0 = price_pnl 120 100 10 1
   \<and> funding_pnl 120 10 0 30 10 = Inr 2
   \<and> funding_pnl 120 10 1 30 10 = Inr 2
   \<and> funding_pnl 18446744073709551615 1152921504606846976 0 100 0
       = funding_pnl 18446744073709551615 1152921504606846976 1 100 0
   \<and> funding_pnl 18446744073709551615 1152921504606846976 1 100 0 = Inl ArithmeticError"
proof -
  note w = C7_directionless_pnl [where cur = 120 and epx = 100 and sz = 10 and sd = 0 and sd' = 1
      and px = 120 and cum_now = 30 and cum_open = 10
      and p = "the (demo_open 1)" and pos = "the (positions (the (demo_open 1)) 7)"]
  note v = C7_directionless_pnl [where cur = 120 and epx = 100 and sz = 1152921504606846976
      and sd = 1 and sd' = 0 and px = 18446744073709551615 and cum_now = 100 and cum_open = 0
      and p = "the (demo_open 1)" and pos = "the (positions (the (demo_open 1)) 7)"]
  from w have a: "price_pnl 120 100 10 0 = price_pnl 120 100 10 1"
    by (rule conjunct1)
  from w have b: "funding_pnl 120 10 0 30 10 = funding_pnl 120 10 1 30 10"
    by blast
  from w have "funding_pnl 120 10 0 30 10 =
       (if unat (120::u64) * unat (10::u64) * abs_diff (unat (30::u128)) (unat (10::u128)) < 2 ^ 128
        then Inr (of_nat (unat (120::u64) * unat (10::u64) * abs_diff (unat (30::u128)) (unat (10::u128)) div 10000))
        else Inl ArithmeticError)"
    by blast
  then have c: "funding_pnl 120 10 0 30 10 = Inr 2"
    by (simp add: abs_diff_def)
  from v have d: "funding_pnl 18446744073709551615 1152921504606846976 1 100 0
      = funding_pnl 18446744073709551615 1152921504606846976 0 100 0"
    by blast
  from v have "funding_pnl 18446744073709551615 1152921504606846976 1 100 0 =
       (if unat (18446744073709551615::u64) * unat (1152921504606846976::u64)
             * abs_diff (unat (100::u128)) (unat (0::u128)) < 2 ^ 128
        then Inr (of_nat (unat (18446744073709551615::u64) * unat (1152921504606846976::u64)
             * abs_diff (unat (100::u128)) (unat (0::u128)) div 10000))
        else Inl ArithmeticError)"
    by blast
  then have e: "funding_pnl 18446744073709551615 1152921504606846976 1 100 0 = Inl ArithmeticError"
    by (simp add: abs_diff_def)
  from a b c d e show ?thesis by simp
qed

section \<open>Oracle authorization\<close>

text \<open>
  C8. On an existing market, \<open>set_mark_price\<close> from a caller that is not the registered
  price oracle, and \<open>push_funding\<close> from a caller that is not the registered funding
  oracle, abort with \<open>PermissionDenied\<close>, and the storage (mark price, funding index,
  funding timestamp, positions) is what it was.
\<close>

theorem C8_oracle_authorization:
  assumes "st admin = Some p"
  shows "(caller \<noteq> price_oracle p \<longrightarrow>
            set_mark_price st admin pid caller new_px = Inl (PermissionDenied E_NOT_AUTH)
          \<and> commit st (set_mark_price st admin pid caller new_px) = st)
       \<and> (caller \<noteq> vrf_oracle p \<longrightarrow>
            push_funding st admin pid caller funding_bps seed now_ts = Inl (PermissionDenied E_NOT_AUTH)
          \<and> commit st (push_funding st admin pid caller funding_bps seed now_ts) = st)"
  using assms
  by (simp add: set_mark_price_def push_funding_def pair_object_address_def commit_def)

theorem C8_oracle_authorization_witness:
  "demo_open 1 \<noteq> None \<and> 9 \<noteq> price_oracle (the (demo_open 1)) \<and> 9 \<noteq> vrf_oracle (the (demo_open 1))
   \<and> set_mark_price demo_open 1 0 9 555 = Inl (PermissionDenied E_NOT_AUTH)
   \<and> commit demo_open (set_mark_price demo_open 1 0 9 555) = demo_open
   \<and> push_funding demo_open 1 0 9 0 77 7200 = Inl (PermissionDenied E_NOT_AUTH)
   \<and> commit demo_open (push_funding demo_open 1 0 9 0 77 7200) = demo_open"
proof -
  have h: "demo_open 1 = Some (the (demo_open 1))" by (simp add: demo_open_eq)
  show ?thesis
    using C8_oracle_authorization [where st = demo_open and admin = 1 and caller = 9 and pid = 0
        and new_px = 555 and funding_bps = 0 and seed = 77 and now_ts = 7200, OF h]
    by (simp add: demo_open_eq commit_def)
qed

section \<open>Liquidation never succeeds\<close>

text \<open>
  C9. \<open>health\<close> is computed in \<open>u128\<close>. For an existing position with
  \<open>margin + pricePnL + fundingPnL < maintenanceMargin\<close> (that is \<open>spec_health < 0\<close>),
  \<open>liquidate\<close> aborts with the untyped arithmetic error. Whenever \<open>health\<close> returns a
  value \<open>h\<close>, it is the non-negative \<open>spec_health\<close>, \<open>h < 0\<close> is false and \<open>liquidate\<close>
  aborts with \<open>InvalidState\<close>. So every call of \<open>liquidate\<close> aborts, and no call removes
  a position.
\<close>

theorem C9_liquidate_never_removes:
  "(\<exists>e. liquidate st admin victim pid = Inl e)
   \<and> commit st (liquidate st admin victim pid) = st
   \<and> (\<forall>pair pos. st admin = Some pair \<and> positions pair victim = Some pos \<longrightarrow>
        (spec_health pair pos < 0 \<longrightarrow> liquidate st admin victim pid = Inl ArithmeticError)
      \<and> (\<forall>h. health pair pos = Inr h \<longrightarrow>
            \<not> h < 0 \<and> int (unat h) = spec_health pair pos
            \<and> liquidate st admin victim pid = Inl (InvalidState E_UNSAFE))
      \<and> (liquidate st admin victim pid = Inl ArithmeticError
          \<or> liquidate st admin victim pid = Inl (InvalidState E_UNSAFE)))"
proof -
  have a: "\<exists>e. liquidate st admin victim pid = Inl e"
    by (simp add: liquidate_result split: option.splits sum.splits)
  then have b: "commit st (liquidate st admin victim pid) = st"
    by (auto simp: commit_def)
  have c: "liquidate st admin victim pid = Inl ArithmeticError"
    if "st admin = Some pair" "positions pair victim = Some pos" "spec_health pair pos < 0"
    for pair pos
    using that health_negative [of pair pos] by (simp add: liquidate_result)
  have d: "\<not> h < 0 \<and> int (unat h) = spec_health pair pos
      \<and> liquidate st admin victim pid = Inl (InvalidState E_UNSAFE)"
    if "st admin = Some pair" "positions pair victim = Some pos" "health pair pos = Inr h"
    for pair pos h
    using that health_Inr [of pair pos h] by (simp add: liquidate_result)
  have e: "liquidate st admin victim pid = Inl ArithmeticError
          \<or> liquidate st admin victim pid = Inl (InvalidState E_UNSAFE)"
    if "st admin = Some pair" "positions pair victim = Some pos" for pair pos
    using that by (simp add: liquidate_result split: sum.splits)
  show ?thesis using a b c d e by blast
qed

theorem C9_liquidate_never_removes_witness:
  "thin_open 1 \<noteq> None \<and> positions (the (thin_open 1)) 7 \<noteq> None
   \<and> spec_health (the (thin_open 1)) (the (positions (the (thin_open 1)) 7)) < 0
   \<and> liquidate thin_open 1 7 0 = Inl ArithmeticError
   \<and> commit thin_open (liquidate thin_open 1 7 0) = thin_open
   \<and> demo_open 1 \<noteq> None \<and> positions (the (demo_open 1)) 7 \<noteq> None
   \<and> health (the (demo_open 1)) (the (positions (the (demo_open 1)) 7)) = Inr 100
   \<and> liquidate demo_open 1 7 0 = Inl (InvalidState E_UNSAFE)
   \<and> commit demo_open (liquidate demo_open 1 7 0) = demo_open"
proof -
  let ?tp = "the (thin_open 1)" and ?dp = "the (demo_open 1)"
  have t1: "thin_open 1 = Some ?tp" and t2: "positions ?tp 7 = Some (the (positions ?tp 7))"
    by (simp_all add: thin_open_eq)
  have t3: "spec_health ?tp (the (positions ?tp 7)) < 0"
    by (simp add: thin_open_eq spec_health_def spec_price_pnl_def spec_funding_pnl_def
        spec_maint_margin_def abs_diff_def)
  have d1: "demo_open 1 = Some ?dp" and d2: "positions ?dp 7 = Some (the (positions ?dp 7))"
    by (simp_all add: demo_open_eq)
  have d3: "health ?dp (the (positions ?dp 7)) = Inr 100"
    by (simp add: demo_open_eq health_def maint_margin_def price_pnl_def funding_pnl_def ledger_defs)
  show ?thesis
    using C9_liquidate_never_removes [of thin_open 1 7 0] C9_liquidate_never_removes [of demo_open 1 7 0]
      t1 t2 t3 d1 d2 d3
    by (metis option.distinct(1))
qed

section \<open>Funding: rate, monotonicity, quantization\<close>

lemmas funding_defs = push_funding_def pair_object_address_def then_do_def mul_chk_def
  add_chk_def sub_chk_def mod_chk_def div_chk_def as_u128_def as_u64_def Let_def commit_def

text \<open>
  C2 (the code at the failing input). The claim is that a seed whose residue is below
  the cap yields a negative rate, which accrual adds to the index. On \<open>demo_market\<close>
  (cap 50) the seed 0 has residue 0 and the spec's rate is \<open>-50\<close>; one hour after the
  last accrual \<open>push_funding\<close> from the funding oracle aborts with an arithmetic error
  (the \<open>u128\<close> subtraction \<open>r - cap\<close> goes below zero) and the index stays 0.
\<close>

theorem C2_negative_rate_aborts:
  "spec_funding_rate 0 (max_funding_bps_hour (cfg (the (demo_market 1)))) = - 50
   \<and> vrf_oracle (the (demo_market 1)) = 3
   \<and> push_funding demo_market 1 0 3 0 0 3600 = Inl ArithmeticError
   \<and> cum_funding_bps (the (commit demo_market (push_funding demo_market 1 0 3 0 0 3600) 1)) = 0"
  by (simp add: demo_market_eq spec_funding_rate_def funding_defs)

lemma create_pair_mono:
  assumes "create_pair st admin pid ml ib mb mf orc vrf px now_ts = Inr st'" "st a = Some p"
  shows "st' a = Some p"
  using assms
  by (auto simp: create_pair_def pair_object_address_def Let_def split: if_splits)

lemma set_mark_price_mono:
  assumes "set_mark_price st admin pid caller new_px = Inr st'" "st a = Some p"
  shows "\<exists>p'. st' a = Some p' \<and> cum_funding_bps p' = cum_funding_bps p"
  using assms
  by (auto simp: set_mark_price_def pair_object_address_def Let_def split: option.splits if_splits)

lemma add_chk_le: "add_chk a b = Inr c \<Longrightarrow> a \<le> c"
  by (drule add_chk_Inr) (simp add: word_le_nat_alt)

lemma push_funding_mono:
  assumes "push_funding st admin pid caller funding_bps seed now_ts = Inr st'" "st a = Some p"
  shows "\<exists>p'. st' a = Some p' \<and> cum_funding_bps p \<le> cum_funding_bps p'"
  using assms
  apply (auto simp: push_funding_def pair_object_address_def Let_def then_do_eq_Inr
      split: option.splits if_splits)
  apply (erule add_chk_le)
  done

lemma open_position_mono:
  assumes "open_position st admin user pid sz sd lev mg epx = Inr st'" "st a = Some p"
  shows "\<exists>p'. st' a = Some p' \<and> cum_funding_bps p' = cum_funding_bps p"
  using assms
  by (auto simp: open_position_def pair_object_address_def Let_def then_do_eq_Inr
      split: option.splits if_splits)

lemma close_position_mono:
  assumes "close_position st admin user pid stc = Inr (st', eq)" "st a = Some p"
  shows "\<exists>p'. st' a = Some p' \<and> cum_funding_bps p' = cum_funding_bps p"
  using assms
  by (auto simp: close_position_def pair_object_address_def Let_def then_do_eq_Inr
      split: option.splits if_splits)

lemma liquidate_aborts: "liquidate st admin victim pid \<noteq> Inr st'"
  by (simp add: liquidate_result split: option.splits sum.splits)

lemma dispatch_mono:
  assumes "dispatch st c = Inr st'" "st a = Some p"
  shows "\<exists>p'. st' a = Some p' \<and> cum_funding_bps p \<le> cum_funding_bps p'"
proof (cases c)
  case (CreatePair admin pid ml ib mb mf orc vrf px now_ts)
  with assms create_pair_mono [of st admin pid ml ib mb mf orc vrf px now_ts st' a p]
  show ?thesis by simp
next
  case (SetMarkPrice admin pid caller new_px)
  with assms set_mark_price_mono [of st admin pid caller new_px st' a p]
  show ?thesis by auto
next
  case (PushFunding admin pid caller funding_bps seed now_ts)
  with assms push_funding_mono [of st admin pid caller funding_bps seed now_ts st' a p]
  show ?thesis by simp
next
  case (OpenPosition admin user pid sz sd lev mg epx)
  with assms open_position_mono [of st admin user pid sz sd lev mg epx st' a p]
  show ?thesis by auto
next
  case (ClosePosition admin user pid stc)
  with assms(1) obtain eq where "close_position st admin user pid stc = Inr (st', eq)"
    by (cases "close_position st admin user pid stc") auto
  from close_position_mono [OF this assms(2)] show ?thesis by auto
next
  case (Liquidate admin victim pid)
  with assms liquidate_aborts show ?thesis by simp
qed

lemma exec_mono:
  assumes "st a = Some p"
  shows "\<exists>p'. exec st c a = Some p' \<and> cum_funding_bps p \<le> cum_funding_bps p'"
proof (cases "dispatch st c")
  case (Inl e)
  with assms show ?thesis by (simp add: exec_def commit_def)
next
  case (Inr st')
  from dispatch_mono [OF Inr assms] Inr show ?thesis by (simp add: exec_def commit_def)
qed

lemma run_mono:
  "st a = Some p \<Longrightarrow> \<exists>p'. run st cs a = Some p' \<and> cum_funding_bps p \<le> cum_funding_bps p'"
proof (induction cs arbitrary: st p)
  case Nil
  then show ?case by (simp add: run_def)
next
  case (Cons c cs)
  from exec_mono [where st = st and a = a and c = c, OF Cons.prems] obtain q where
    q: "exec st c a = Some q" "cum_funding_bps p \<le> cum_funding_bps q" by blast
  from Cons.IH [where st = "exec st c", OF q(1)] obtain p' where
    "run (exec st c) cs a = Some p'" "cum_funding_bps q \<le> cum_funding_bps p'" by blast
  with q(2) show ?case by (auto simp: run_def)
qed

lemma run_append: "run st (cs @ cs') = run (run st cs) cs'"
  by (simp add: run_def)

lemma negative_rate_aborts:
  fixes st :: store and admin caller :: address and pid now_ts :: u64 and funding_bps seed :: u128
  assumes "st admin = Some p" "caller = vrf_oracle p" "last_funding_ts p < now_ts"
    and "spec_funding_rate seed (max_funding_bps_hour (cfg p)) < 0"
  shows "push_funding st admin pid caller funding_bps seed now_ts = Inl ArithmeticError"
proof -
  note cases = push_funding_cases [where st = st and admin = admin and pid = pid
      and funding_bps = funding_bps and seed = seed, OF assms(1-3)]
  from assms(4) have "int (seed_residue seed p) < int (funding_cap p)"
    unfolding spec_funding_rate_def seed_residue_def funding_cap_def by linarith
  then have "seed_residue seed p < funding_cap p"
    by (simp only: of_nat_less_iff)
  with cases(1,2) show ?thesis by blast
qed

lemma wide_cap_market_eq:
  "wide_cap_market = [1 \<mapsto> \<lparr> pair_id = 0,
      cfg = \<lparr> max_lev_bps = 5000, init_margin_bps = 2000, maint_margin_bps = 1000,
              max_funding_bps_hour = 9223372036854775808 \<rparr>,
      mark_px = 100, cum_funding_bps = 0, last_funding_ts = 0, price_oracle = 2, vrf_oracle = 3,
      positions = Map.empty \<rparr>]"
  by (simp add: wide_cap_market_def ledger_defs)

text \<open>
  C10. The cumulative funding index never decreases: \<open>create_pair\<close> starts it at 0;
  every call that returns leaves each market's index unchanged or larger; hence along
  any execution from the empty storage the index of a market only grows; and an
  authorized \<open>push_funding\<close> after the last accrual aborts with the arithmetic error
  whenever the spec's rate \<open>(seed mod (2*cap+1)) - cap\<close> is negative.
\<close>

theorem C10_funding_index_monotone:
  fixes st :: store and seed :: u128
  shows
  "(create_pair st admin pid ml ib mb mf orc vrf px ts = Inr st1 \<longrightarrow>
      (\<exists>p. st1 admin = Some p \<and> cum_funding_bps p = 0))
   \<and> (dispatch st c = Inr st2 \<and> st a = Some p \<longrightarrow>
        (\<exists>p'. st2 a = Some p' \<and> cum_funding_bps p \<le> cum_funding_bps p'))
   \<and> (run Map.empty cs a = Some q \<longrightarrow>
        (\<exists>q'. run Map.empty (cs @ cs') a = Some q' \<and> cum_funding_bps q \<le> cum_funding_bps q'))
   \<and> (st a = Some p \<and> caller = vrf_oracle p \<and> last_funding_ts p < now_ts
        \<and> spec_funding_rate seed (max_funding_bps_hour (cfg p)) < 0 \<longrightarrow>
        push_funding st a pid caller funding_bps seed now_ts = Inl ArithmeticError)"
proof -
  have 1: "\<exists>p. st1 admin = Some p \<and> cum_funding_bps p = 0"
    if "create_pair st admin pid ml ib mb mf orc vrf px ts = Inr st1"
    using that by (auto simp: create_pair_def pair_object_address_def Let_def split: if_splits)
  have 2: "\<exists>p'. st2 a = Some p' \<and> cum_funding_bps p \<le> cum_funding_bps p'"
    if "dispatch st c = Inr st2" "st a = Some p"
    using that by (rule dispatch_mono)
  have 3: "\<exists>q'. run Map.empty (cs @ cs') a = Some q' \<and> cum_funding_bps q \<le> cum_funding_bps q'"
    if "run Map.empty cs a = Some q"
    unfolding run_append using that by (rule run_mono)
  have 4: "push_funding st a pid caller funding_bps seed now_ts = Inl ArithmeticError"
    if "st a = Some p" "caller = vrf_oracle p" "last_funding_ts p < now_ts"
      "spec_funding_rate seed (max_funding_bps_hour (cfg p)) < 0"
    using that by (rule negative_rate_aborts)
  from 1 2 3 4 show ?thesis by blast
qed

lemma hours_pos_later: "0 < elapsed_hours p now_ts \<Longrightarrow> last_funding_ts p < now_ts"
  by (rule ccontr) (simp add: elapsed_hours_def word_less_nat_alt not_less)

lemma spec_funding_rate_eq:
  "spec_funding_rate seed (max_funding_bps_hour (cfg p)) = int (seed_residue seed p) - int (funding_cap p)"
  unfolding spec_funding_rate_def seed_residue_def funding_cap_def ..

text \<open>
  C3, amended. For an authorized \<open>push_funding\<close> on an existing market: if less than
  3600 seconds have elapsed (none, when \<open>now\<close> is not after the last accrual), the
  storage is unchanged. If at least one whole hour has elapsed, the rate
  \<open>(seed mod (2*cap+1)) - cap\<close> is not negative and the call returns, the index has
  grown by \<open>rate * hours\<close>, the timestamp has advanced by exactly \<open>hours * 3600\<close>,
  leaving the sub-hour remainder for a later call, and nothing else has changed. Such a
  call does return when \<open>2*cap+1\<close> fits \<open>u64\<close> and the new index fits \<open>u128\<close>.
\<close>

theorem C3_funding_quantization:
  fixes st :: store and admin caller :: address and pid now_ts :: u64 and funding_bps seed :: u128
  assumes p: "st admin = Some p" and auth: "caller = vrf_oracle p"
  shows
  "(unat now_ts - unat (last_funding_ts p) < 3600 \<longrightarrow>
      commit st (push_funding st admin pid caller funding_bps seed now_ts) = st)
   \<and> (0 < elapsed_hours p now_ts
        \<and> 0 \<le> spec_funding_rate seed (max_funding_bps_hour (cfg p))
        \<and> push_funding st admin pid caller funding_bps seed now_ts = Inr st' \<longrightarrow>
        (\<exists>cum' ts'. st' = st(admin \<mapsto> p\<lparr>cum_funding_bps := cum', last_funding_ts := ts'\<rparr>)
           \<and> int (unat cum') = int (unat (cum_funding_bps p))
                 + spec_funding_rate seed (max_funding_bps_hour (cfg p)) * int (elapsed_hours p now_ts)
           \<and> unat ts' = unat (last_funding_ts p) + elapsed_hours p now_ts * 3600
           \<and> unat now_ts - unat ts' = (unat now_ts - unat (last_funding_ts p)) mod 3600))
   \<and> (0 < elapsed_hours p now_ts
        \<and> 0 \<le> spec_funding_rate seed (max_funding_bps_hour (cfg p))
        \<and> 2 * funding_cap p + 1 < 2 ^ 64
        \<and> int (unat (cum_funding_bps p))
             + spec_funding_rate seed (max_funding_bps_hour (cfg p)) * int (elapsed_hours p now_ts)
             < 2 ^ 128 \<longrightarrow>
        (\<exists>st''. push_funding st admin pid caller funding_bps seed now_ts = Inr st''))"
proof -
  let ?pf = "push_funding st admin pid caller funding_bps seed now_ts"
  let ?c = "funding_cap p" and ?r = "seed_residue seed p" and ?h = "elapsed_hours p now_ts"
  let ?rate = "spec_funding_rate seed (max_funding_bps_hour (cfg p))"
  note cases = push_funding_cases [where st = st and admin = admin and pid = pid
      and funding_bps = funding_bps and seed = seed, OF p auth]
  have rate: "?c \<le> ?r" "int (?r - ?c) = ?rate" if "0 \<le> ?rate"
    using that unfolding spec_funding_rate_eq by simp_all
  have 1: "commit st ?pf = st" if short: "unat now_ts - unat (last_funding_ts p) < 3600"
  proof (cases "last_funding_ts p < now_ts")
    case True
    from short have h: "?h = 0" by (simp add: elapsed_hours_def)
    from cases(1,2,3) [OF True] h have "?pf = Inl ArithmeticError \<or> ?pf = Inr st"
      by (metis not_less)
    then show ?thesis by (auto simp: commit_def)
  next
    case False
    with p auth have "?pf = Inr st"
      by (simp add: push_funding_def pair_object_address_def Let_def)
    then show ?thesis by (simp add: commit_def)
  qed
  have 2: "\<exists>cum' ts'. st' = st(admin \<mapsto> p\<lparr>cum_funding_bps := cum', last_funding_ts := ts'\<rparr>)
           \<and> int (unat cum') = int (unat (cum_funding_bps p)) + ?rate * int ?h
           \<and> unat ts' = unat (last_funding_ts p) + ?h * 3600
           \<and> unat now_ts - unat ts' = (unat now_ts - unat (last_funding_ts p)) mod 3600"
    if h: "0 < ?h" and nonneg: "0 \<le> ?rate" and ok: "?pf = Inr st'"
  proof -
    from h have later: "last_funding_ts p < now_ts" by (rule hours_pos_later)
    have a: "2 * ?c + 1 < 2 ^ 64" using cases(1) [OF later] ok by fastforce
    note b = rate(1) [OF nonneg]
    have c: "unat (cum_funding_bps p) + (?r - ?c) * ?h < 2 ^ 128"
      using cases(4) [OF later a b h] ok by fastforce
    from cases(5) [OF later a b h c] ok obtain cum' ts' where
      r: "st' = st(admin \<mapsto> p\<lparr>cum_funding_bps := cum', last_funding_ts := ts'\<rparr>)"
        "unat cum' = unat (cum_funding_bps p) + (?r - ?c) * ?h"
        "unat ts' = unat (last_funding_ts p) + ?h * 3600"
      by auto
    from r(2) have "int (unat cum') = int (unat (cum_funding_bps p)) + int (?r - ?c) * int ?h"
      by (simp only: of_nat_add of_nat_mult)
    then have grow: "int (unat cum') = int (unat (cum_funding_bps p)) + ?rate * int ?h"
      by (simp only: rate(2) [OF nonneg])
    from later have "unat (last_funding_ts p) \<le> unat now_ts"
      by (simp add: word_less_nat_alt)
    then have "unat now_ts - unat ts' = (unat now_ts - unat (last_funding_ts p)) mod 3600"
      unfolding r(3) elapsed_hours_def
      by (simp add: minus_mod_eq_div_mult [symmetric] diff_diff_left [symmetric] del: diff_diff_left)
    with r(1,3) grow show ?thesis by blast
  qed
  have 3: "\<exists>st''. ?pf = Inr st''"
    if "0 < ?h" "0 \<le> ?rate" "2 * ?c + 1 < 2 ^ 64"
      "int (unat (cum_funding_bps p)) + ?rate * int ?h < 2 ^ 128"
  proof -
    from that(4) have "int (unat (cum_funding_bps p) + (?r - ?c) * ?h) < int (2 ^ 128)"
      by (simp only: rate(2) [OF that(2), symmetric] of_nat_add of_nat_mult) simp
    then have "unat (cum_funding_bps p) + (?r - ?c) * ?h < 2 ^ 128"
      by (simp only: of_nat_less_iff)
    from cases(5) [OF hours_pos_later [OF that(1)] that(3) rate(1) [OF that(2)] that(1) this]
    show ?thesis by blast
  qed
  from 1 2 3 show ?thesis by blast
qed


lemma demo_funded_eq:
  "demo_funded = [1 \<mapsto> \<lparr> pair_id = 0,
      cfg = \<lparr> max_lev_bps = 5000, init_margin_bps = 2000, maint_margin_bps = 1000, max_funding_bps_hour = 50 \<rparr>,
      mark_px = 100, cum_funding_bps = 100, last_funding_ts = 7200, price_oracle = 2, vrf_oracle = 3,
      positions = Map.empty \<rparr>]"
  by (simp add: demo_funded_def demo_market_eq funding_defs)

text \<open>
  C3 as stated (every authorized call with \<open>hours > 0\<close> advances the timestamp by
  \<open>hours * 3600\<close>) fails: on \<open>wide_cap_market\<close>, two hours after the last accrual,
  \<open>cap * 2 + 1\<close> leaves \<open>u64\<close>, the call aborts and the timestamp has not moved.
\<close>

theorem C3_push_funding_counterexample:
  "wide_cap_market 1 \<noteq> None
   \<and> vrf_oracle (the (wide_cap_market 1)) = 3
   \<and> elapsed_hours (the (wide_cap_market 1)) 7200 = 2
   \<and> push_funding wide_cap_market 1 0 3 0 5 7200 = Inl ArithmeticError
   \<and> last_funding_ts (the (commit wide_cap_market (push_funding wide_cap_market 1 0 3 0 5 7200) 1))
       \<noteq> last_funding_ts (the (wide_cap_market 1)) + 2 * 3600"
  by (simp add: wide_cap_market_eq elapsed_hours_def funding_defs)

text \<open>The amended C3 on \<open>demo_market\<close>: 3599 seconds change nothing, 7300 seconds accrue two hours.\<close>

theorem C3_funding_quantization_witness:
  "demo_market 1 \<noteq> None \<and> vrf_oracle (the (demo_market 1)) = 3
   \<and> commit demo_market (push_funding demo_market 1 0 3 0 100 3599) = demo_market
   \<and> elapsed_hours (the (demo_market 1)) 7300 = 2
   \<and> spec_funding_rate 100 (max_funding_bps_hour (cfg (the (demo_market 1)))) = 50
   \<and> (\<exists>st'. push_funding demo_market 1 0 3 0 100 7300 = Inr st'
         \<and> cum_funding_bps (the (st' 1)) = 100 \<and> last_funding_ts (the (st' 1)) = 7200)"
proof -
  let ?p = "the (demo_market 1)"
  let ?rate = "spec_funding_rate 100 (max_funding_bps_hour (cfg ?p))"
  have p: "demo_market 1 = Some ?p" and auth: "(3::nat) = vrf_oracle ?p"
    by (simp_all add: demo_market_eq)
  have short: "unat (3599::u64) - unat (last_funding_ts ?p) < 3600"
    by (simp add: demo_market_eq)
  have h: "0 < elapsed_hours ?p 7300" "elapsed_hours ?p 7300 = 2"
    by (simp_all add: demo_market_eq elapsed_hours_def)
  have rate: "?rate = 50" "0 \<le> ?rate"
    by (simp_all add: demo_market_eq spec_funding_rate_def)
  have z: "cum_funding_bps ?p = 0" "last_funding_ts ?p = 0"
    by (simp_all add: demo_market_eq)
  have ok: "2 * funding_cap ?p + 1 < 2 ^ 64"
    "int (unat (cum_funding_bps ?p)) + ?rate * int (elapsed_hours ?p 7300) < 2 ^ 128"
    unfolding rate(1) h(2) z by (simp_all add: demo_market_eq funding_cap_def)
  note a = C3_funding_quantization [where st = demo_market and admin = 1 and caller = 3
      and pid = 0 and funding_bps = 0 and seed = 100 and now_ts = 3599, OF p auth]
  note b = C3_funding_quantization [where st = demo_market and admin = 1 and caller = 3
      and pid = 0 and funding_bps = 0 and seed = 100 and now_ts = 7300, OF p auth]
  from a short have 1: "commit demo_market (push_funding demo_market 1 0 3 0 100 3599) = demo_market"
    by blast
  from b h(1) rate(2) ok obtain st' where st': "push_funding demo_market 1 0 3 0 100 7300 = Inr st'"
    by blast
  with b h(1) rate(2) obtain cum' ts' where
    r: "st' = demo_market(1 \<mapsto> ?p\<lparr>cum_funding_bps := cum', last_funding_ts := ts'\<rparr>)"
      "int (unat cum') = int (unat (cum_funding_bps ?p)) + ?rate * int (elapsed_hours ?p 7300)"
      "unat ts' = unat (last_funding_ts ?p) + elapsed_hours ?p 7300 * 3600"
    by blast
  from r(2) have "int (unat cum') = int (unat (100::u128))" unfolding rate(1) h(2) z by simp
  then have "unat cum' = unat (100::u128)" by (simp only: of_nat_eq_iff)
  then have c: "cum' = 100" by (simp only: word_unat_eq_iff)
  from r(3) have "unat ts' = unat (7200::u64)" unfolding h(2) z by simp
  then have t: "ts' = 7200" by (simp only: word_unat_eq_iff)
  from st' r(1) c t have ex: "\<exists>st'. push_funding demo_market 1 0 3 0 100 7300 = Inr st'
         \<and> cum_funding_bps (the (st' 1)) = 100 \<and> last_funding_ts (the (st' 1)) = 7200"
    by simp
  have nn: "demo_market 1 \<noteq> None" by (simp add: demo_market_eq)
  from nn auth [symmetric] 1 h(2) rate(1) ex show ?thesis by blast
qed

text \<open>C10 on the execution that creates \<open>demo_market\<close>, accrues funding and sets a price.\<close>

theorem C10_funding_index_monotone_witness:
  "create_pair Map.empty 1 0 5000 2000 1000 50 2 3 100 0 = Inr demo_market
   \<and> cum_funding_bps (the (demo_market 1)) = 0
   \<and> dispatch demo_market (PushFunding 1 0 3 0 100 7200) = Inr demo_funded
   \<and> cum_funding_bps (the (demo_market 1)) \<le> cum_funding_bps (the (demo_funded 1))
   \<and> run Map.empty [CreatePair 1 0 5000 2000 1000 50 2 3 100 0] 1 = Some (the (demo_market 1))
   \<and> (\<exists>q'. run Map.empty ([CreatePair 1 0 5000 2000 1000 50 2 3 100 0]
              @ [PushFunding 1 0 3 0 100 7200, SetMarkPrice 1 0 2 120]) 1 = Some q'
          \<and> cum_funding_bps (the (demo_market 1)) \<le> cum_funding_bps q')
   \<and> spec_funding_rate 0 (max_funding_bps_hour (cfg (the (demo_market 1)))) < 0
   \<and> push_funding demo_market 1 0 3 0 0 3600 = Inl ArithmeticError"
proof -
  let ?p = "the (demo_market 1)"
  let ?cs = "[CreatePair 1 0 5000 2000 1000 50 2 3 100 0]"
  let ?cs' = "[PushFunding 1 0 3 0 100 7200, SetMarkPrice 1 0 2 120]"
  note w1 = C10_funding_index_monotone [where st = Map.empty and admin = 1 and pid = 0
      and ml = 5000 and ib = 2000 and mb = 1000 and mf = 50 and orc = 2 and vrf = 3 and px = 100
      and ts = 0 and ?st1.0 = demo_market]
  note w2 = C10_funding_index_monotone [where st = demo_market and a = 1 and p = ?p
      and c = "PushFunding 1 0 3 0 100 7200" and ?st2.0 = demo_funded
      and cs = ?cs and cs' = ?cs' and q = ?p
      and caller = 3 and now_ts = 3600 and seed = 0 and pid = 0 and funding_bps = 0]
  have h1: "create_pair Map.empty 1 0 5000 2000 1000 50 2 3 100 0 = Inr demo_market"
    by (simp add: demo_market_def create_pair_def pair_object_address_def commit_def)
  have h2: "dispatch demo_market (PushFunding 1 0 3 0 100 7200) = Inr demo_funded"
    by (simp add: demo_funded_eq demo_market_eq funding_defs)
  have p: "demo_market 1 = Some ?p"
    by (simp add: demo_market_eq)
  have h3: "run Map.empty ?cs 1 = Some ?p"
    by (simp add: run_def exec_def demo_market_eq ledger_defs)
  have h4: "3 = vrf_oracle ?p" "last_funding_ts ?p < 3600"
      "spec_funding_rate 0 (max_funding_bps_hour (cfg ?p)) < 0"
    by (simp_all add: demo_market_eq spec_funding_rate_def)
  from w1 h1 have c1: "\<exists>p. demo_market 1 = Some p \<and> cum_funding_bps p = 0"
    by blast
  from w2 h2 p have c2: "\<exists>p'. demo_funded 1 = Some p' \<and> cum_funding_bps ?p \<le> cum_funding_bps p'"
    by blast
  from w2 h3 have c3: "\<exists>q'. run Map.empty (?cs @ ?cs') 1 = Some q'
      \<and> cum_funding_bps ?p \<le> cum_funding_bps q'"
    by blast
  from w2 p h4 have c4: "push_funding demo_market 1 0 3 0 0 3600 = Inl ArithmeticError"
    by blast
  from c1 have d1: "cum_funding_bps ?p = 0" by auto
  from c2 have d2: "cum_funding_bps ?p \<le> cum_funding_bps (the (demo_funded 1))" by auto
  from h1 d1 h2 d2 h3 c3 h4(3) c4 show ?thesis by blast
qed

section \<open>Opening and closing\<close>

lemma as_u128_nonzero: "x \<noteq> 0 \<Longrightarrow> as_u128 x \<noteq> 0"
proof
  assume "x \<noteq> 0" "as_u128 x = 0"
  then have "unat (as_u128 x) = 0" by simp
  then have "unat x = 0" by (simp only: unat_as_u128)
  with \<open>x \<noteq> 0\<close> show False by (simp add: unat_eq_zero)
qed

lemma unat_max_word:
  "unat (if a > b then a else b) = max (unat a) (unat (b::'a::len word))"
  by (simp add: word_less_nat_alt max_def not_less)

lemma required_init_margin_cases:
  assumes "lev \<noteq> 0"
  shows "unat n * unat init < 2 ^ 128 \<Longrightarrow>
           \<exists>r. required_init_margin n lev init = Inr r
             \<and> unat r = max (unat n div unat lev) (unat n * unat init div 10000)"
    and "\<not> unat n * unat init < 2 ^ 128 \<Longrightarrow> required_init_margin n lev init = Inl ArithmeticError"
proof -
  have d: "div_chk n (as_u128 lev) = Inr (n div as_u128 lev)"
    using as_u128_nonzero [OF assms] by (simp add: div_chk_def)
  have dv: "unat (n div as_u128 lev) = unat n div unat lev"
    by (simp add: unat_div unat_as_u128)
  show "\<exists>r. required_init_margin n lev init = Inr r
             \<and> unat r = max (unat n div unat lev) (unat n * unat init div 10000)"
    if ok: "unat n * unat init < 2 ^ 128"
  proof -
    from ok have "unat n * unat (as_u128 init) < 2 ^ 128" by (simp add: unat_as_u128)
    then have m: "mul_chk n (as_u128 init) = Inr (n * as_u128 init)"
      "unat (n * as_u128 init) = unat n * unat init"
      by (simp_all add: mul_chk_def unat_word_ariths unat_as_u128)
    let ?f = "of_nat (unat (n * as_u128 init) div 10000) :: u128"
    have f: "unat ?f = unat n * unat init div 10000"
      using unat_of_nat_div [OF ok] m(2) by simp
    have "required_init_margin n lev init =
        Inr (if n div as_u128 lev > ?f then n div as_u128 lev else ?f)"
      by (simp only: required_init_margin_def d m(1) div_chk_10000 then_do_Inr)
    moreover have "unat (if n div as_u128 lev > ?f then n div as_u128 lev else ?f)
        = max (unat n div unat lev) (unat n * unat init div 10000)"
      by (simp only: unat_max_word dv f)
    ultimately show ?thesis by blast
  qed
  show "required_init_margin n lev init = Inl ArithmeticError"
    if "\<not> unat n * unat init < 2 ^ 128"
  proof -
    from that have "mul_chk n (as_u128 init) = Inl ArithmeticError"
      by (simp add: mul_chk_def unat_as_u128)
    then show ?thesis
      by (simp only: required_init_margin_def d then_do_Inr then_do_Inl)
  qed
qed

lemma open_position_low_margin:
  assumes pair: "st admin = Some pair" and fresh: "positions pair user = None"
    and lev: "lev \<noteq> 0"
    and fits: "unat (mark_px pair) * unat sz * unat (init_margin_bps (cfg pair)) < 2 ^ 128"
    and low: "unat mg < max (unat (mark_px pair) * unat sz div unat lev)
        (unat (mark_px pair) * unat sz * unat (init_margin_bps (cfg pair)) div 10000)"
  shows "\<exists>code. open_position st admin user pid sz sd lev mg epx = Inl (InvalidArgument code)"
    and "sd < 2 \<Longrightarrow> 0 < sz \<Longrightarrow> lev \<le> max_lev_bps (cfg pair)
           \<Longrightarrow> open_position st admin user pid sz sd lev mg epx = Inl (InvalidArgument E_BAD_MARGIN)"
proof -
  let ?n = "as_u128 (mark_px pair) * as_u128 sz"
  have n: "unat ?n = unat (mark_px pair) * unat sz" by (rule unat_mul_u64)
  from fits n have "unat ?n * unat (init_margin_bps (cfg pair)) < 2 ^ 128" by simp
  from required_init_margin_cases(1) [OF lev this] obtain req where
    req: "required_init_margin ?n lev (init_margin_bps (cfg pair)) = Inr req"
      "unat req = max (unat ?n div unat lev) (unat ?n * unat (init_margin_bps (cfg pair)) div 10000)"
    by blast
  from low have "unat mg < unat req"
    by (simp only: req(2) n)
  then have "\<not> req \<le> as_u128 mg"
    by (simp add: word_le_nat_alt unat_as_u128)
  with req(1) have tail: "then_do (notional (mark_px pair) sz) (\<lambda>n.
        then_do (required_init_margin n lev (init_margin_bps (cfg pair))) (\<lambda>req.
          if \<not> as_u128 mg \<ge> req then Inl (InvalidArgument E_BAD_MARGIN) else Inr (g req)))
      = Inl (InvalidArgument E_BAD_MARGIN)" for g :: "u128 \<Rightarrow> store"
    by (simp add: notional_eq then_do_Inr)
  from lev have lev0: "0 < lev" by (simp add: word_neq_0_conv)
  show "\<exists>code. open_position st admin user pid sz sd lev mg epx = Inl (InvalidArgument code)"
    using pair fresh lev0 tail
    by (simp add: open_position_def pair_object_address_def Let_def)
  show "sd < 2 \<Longrightarrow> 0 < sz \<Longrightarrow> lev \<le> max_lev_bps (cfg pair)
           \<Longrightarrow> open_position st admin user pid sz sd lev mg epx = Inl (InvalidArgument E_BAD_MARGIN)"
    using pair fresh lev0 tail
    by (simp add: open_position_def pair_object_address_def Let_def)
qed

text \<open>
  C4, amended. For a leverage other than 0 and \<open>notional * initBps\<close> within \<open>u128\<close>,
  \<open>required_init_margin\<close> returns \<open>max (notional div leverageBps) (notional * initBps div 10000)\<close>
  (2000 for 10000, 5000, 2000); when the product leaves \<open>u128\<close> it aborts with the
  arithmetic error. On an existing market where the user holds no position,
  \<open>open_position\<close> with a margin below that value (computed from the mark price and
  the size) aborts with \<open>InvalidArgument\<close>, with the reason \<open>E_BAD_MARGIN\<close> when side, size
  and leverage are valid.
\<close>

theorem C4_required_initial_margin:
  "(lev \<noteq> 0 \<and> unat n * unat init < 2 ^ 128 \<longrightarrow>
      (\<exists>r. required_init_margin n lev init = Inr r
         \<and> unat r = max (unat n div unat lev) (unat n * unat init div 10000)))
   \<and> (lev \<noteq> 0 \<and> \<not> unat n * unat init < 2 ^ 128 \<longrightarrow>
        required_init_margin n lev init = Inl ArithmeticError)
   \<and> required_init_margin 10000 5000 2000 = Inr 2000
   \<and> (st admin = Some pair \<and> positions pair user = None \<and> lv \<noteq> 0
        \<and> unat (mark_px pair) * unat sz * unat (init_margin_bps (cfg pair)) < 2 ^ 128
        \<and> unat mg < max (unat (mark_px pair) * unat sz div unat lv)
              (unat (mark_px pair) * unat sz * unat (init_margin_bps (cfg pair)) div 10000) \<longrightarrow>
        (\<exists>code. open_position st admin user pid sz sd lv mg epx = Inl (InvalidArgument code))
        \<and> (sd < 2 \<and> 0 < sz \<and> lv \<le> max_lev_bps (cfg pair) \<longrightarrow>
             open_position st admin user pid sz sd lv mg epx = Inl (InvalidArgument E_BAD_MARGIN)))"
proof -
  have 1: "\<exists>r. required_init_margin n lev init = Inr r
         \<and> unat r = max (unat n div unat lev) (unat n * unat init div 10000)"
    if "lev \<noteq> 0" "unat n * unat init < 2 ^ 128"
    using that by (rule required_init_margin_cases(1))
  have 2: "required_init_margin n lev init = Inl ArithmeticError"
    if "lev \<noteq> 0" "\<not> unat n * unat init < 2 ^ 128"
    using that by (rule required_init_margin_cases(2))
  have 3: "required_init_margin 10000 5000 2000 = Inr 2000"
    by (simp add: required_init_margin_def then_do_def div_chk_def mul_chk_def as_u128_def)
  have 4: "\<exists>code. open_position st admin user pid sz sd lv mg epx = Inl (InvalidArgument code)"
    and 5: "sd < 2 \<and> 0 < sz \<and> lv \<le> max_lev_bps (cfg pair) \<longrightarrow>
             open_position st admin user pid sz sd lv mg epx = Inl (InvalidArgument E_BAD_MARGIN)"
    if "st admin = Some pair" "positions pair user = None" "lv \<noteq> 0"
      "unat (mark_px pair) * unat sz * unat (init_margin_bps (cfg pair)) < 2 ^ 128"
      "unat mg < max (unat (mark_px pair) * unat sz div unat lv)
              (unat (mark_px pair) * unat sz * unat (init_margin_bps (cfg pair)) div 10000)"
    using open_position_low_margin [where st = st and admin = admin and user = user, OF that]
    by blast+
  from 1 2 3 4 5 show ?thesis by blast
qed

text \<open>
  C4 as stated fails twice: for the notional \<open>2^126\<close> and 2000 bps the product leaves
  \<open>u128\<close> and no margin is returned; and on \<open>demo_open\<close>, where user 7 already holds a
  position, opening with margin 0 (below the required 200) aborts with \<open>AlreadyExists\<close>,
  not \<open>InvalidArgument\<close>.
\<close>

theorem C4_required_margin_counterexample:
  "required_init_margin 85070591730234615865843651857942052864 5000 2000 = Inl ArithmeticError
   \<and> demo_open 1 \<noteq> None
   \<and> required_init_margin 1000 5000 (init_margin_bps (cfg (the (demo_open 1)))) = Inr 200
   \<and> open_position demo_open 1 7 0 10 0 5000 0 100 = Inl (AlreadyExists E_POS_EXISTS)"
  by (simp add: demo_open_eq ledger_defs)

text \<open>The amended C4 at notional 1000, at notional \<open>2^126\<close>, and on \<open>demo_market\<close> with margin 199.\<close>

theorem C4_required_initial_margin_witness:
  "(\<exists>r. required_init_margin 1000 5000 2000 = Inr r \<and> unat r = 200)
   \<and> required_init_margin 85070591730234615865843651857942052864 5000 2000 = Inl ArithmeticError
   \<and> demo_market 1 \<noteq> None \<and> positions (the (demo_market 1)) 7 = None
   \<and> open_position demo_market 1 7 0 10 0 5000 199 100 = Inl (InvalidArgument E_BAD_MARGIN)"
proof -
  let ?p = "the (demo_market 1)"
  note a = C4_required_initial_margin [where lev = 5000 and n = 1000 and init = 2000
      and st = demo_market and admin = 1 and pair = ?p and user = 7 and lv = 5000
      and sz = 10 and mg = 199 and pid = 0 and sd = 0 and epx = 100]
  note b = C4_required_initial_margin [where lev = 5000
      and n = 85070591730234615865843651857942052864 and init = 2000
      and st = demo_market and admin = 1 and pair = ?p and user = 7 and lv = 5000
      and sz = 10 and mg = 199 and pid = 0 and sd = 0 and epx = 100]
  have h1: "(5000::u64) \<noteq> 0" "unat (1000::u128) * unat (2000::u64) < 2 ^ 128"
    "\<not> unat (85070591730234615865843651857942052864::u128) * unat (2000::u64) < 2 ^ 128"
    by simp_all
  have h2: "demo_market 1 = Some ?p" "positions ?p 7 = None"
    "unat (mark_px ?p) * unat (10::u64) * unat (init_margin_bps (cfg ?p)) < 2 ^ 128"
    "unat (199::u64) < max (unat (mark_px ?p) * unat (10::u64) div unat (5000::u64))
              (unat (mark_px ?p) * unat (10::u64) * unat (init_margin_bps (cfg ?p)) div 10000)"
    "(0::u8) < 2" "(0::u64) < 10" "5000 \<le> max_lev_bps (cfg ?p)"
    by (simp_all add: demo_market_eq)
  from a h1(1,2) have "\<exists>r. required_init_margin 1000 5000 2000 = Inr r
       \<and> unat r = max (unat (1000::u128) div unat (5000::u64)) (unat (1000::u128) * unat (2000::u64) div 10000)"
    by blast
  then have c1: "\<exists>r. required_init_margin 1000 5000 2000 = Inr r \<and> unat r = 200"
    by simp
  from b h1(1,3) have c2:
    "required_init_margin 85070591730234615865843651857942052864 5000 2000 = Inl ArithmeticError"
    by blast
  from a h1(1) h2 have c3:
    "open_position demo_market 1 7 0 10 0 5000 199 100 = Inl (InvalidArgument E_BAD_MARGIN)"
    by blast
  have nn: "demo_market 1 \<noteq> None" by (simp add: demo_market_eq)
  from c1 c2 c3 nn h2(2) show ?thesis by blast
qed

lemma margin_share_ok:
  assumes "0 < stc" "stc \<le> size_lots pos"
  shows "\<exists>ms. then_do (mul_chk (as_u128 (margin pos)) (as_u128 stc)) (\<lambda>prod.
               then_do (div_chk prod (as_u128 (size_lots pos))) (\<lambda>share128.
               then_do (as_u64 share128) f)) = f ms
           \<and> unat ms = spec_margin_share pos stc \<and> ms \<le> margin pos"
proof -
  let ?prod = "as_u128 (margin pos) * as_u128 stc"
  let ?s128 = "?prod div as_u128 (size_lots pos)"
  from assms have sz: "size_lots pos \<noteq> 0" by auto
  have le: "unat stc \<le> unat (size_lots pos)" using assms(2) by (simp add: word_le_nat_alt)
  have szpos: "0 < unat (size_lots pos)" using sz by (simp add: unat_gt_0)
  have s: "unat ?s128 = spec_margin_share pos stc"
    by (simp add: unat_div unat_mul_u64 unat_as_u128 spec_margin_share_def)
  have "unat (margin pos) * unat stc \<le> unat (margin pos) * unat (size_lots pos)"
    using le by simp
  then have "unat (margin pos) * unat stc div unat (size_lots pos)
      \<le> unat (margin pos) * unat (size_lots pos) div unat (size_lots pos)"
    by (rule div_le_mono)
  then have bound: "spec_margin_share pos stc \<le> unat (margin pos)"
    using szpos by (simp add: spec_margin_share_def)
  then have lt: "unat ?s128 < 2 ^ 64"
    using s unat_u64_bound [of "margin pos"] by simp
  then have u: "unat (ucast ?s128 :: u64) = spec_margin_share pos stc"
    using s by (simp add: unsigned_ucast_eq take_bit_nat_eq_self)
  have "then_do (mul_chk (as_u128 (margin pos)) (as_u128 stc)) (\<lambda>prod.
               then_do (div_chk prod (as_u128 (size_lots pos))) (\<lambda>share128.
               then_do (as_u64 share128) f)) = f (ucast ?s128)"
    using lt as_u128_nonzero [OF sz]
    by (simp add: mul_chk_u64 then_do_Inr div_chk_def as_u64_def)
  moreover have "(ucast ?s128 :: u64) \<le> margin pos"
    using u bound by (simp add: word_le_nat_alt)
  ultimately show ?thesis using u by blast
qed

lemma close_position_cases:
  fixes st :: store and admin user :: address and pid stc :: u64
  assumes pair: "st admin = Some pair" and pos: "positions pair user = Some pos"
    and stc: "0 < stc" "stc \<le> size_lots pos"
  shows "\<not> (spec_funding_raw pair pos stc < 2 ^ 128 \<and> spec_equity_released pair pos stc < 2 ^ 128)
           \<Longrightarrow> close_position st admin user pid stc = Inl ArithmeticError"
    and "spec_funding_raw pair pos stc < 2 ^ 128 \<Longrightarrow> spec_equity_released pair pos stc < 2 ^ 128
           \<Longrightarrow> \<exists>ms eq. close_position st admin user pid stc =
                   Inr (st(admin \<mapsto> pair\<lparr>positions :=
                          (if stc = size_lots pos then (positions pair)(user := None)
                           else (positions pair)(user \<mapsto>
                             pos\<lparr>size_lots := size_lots pos - stc, margin := margin pos - ms\<rparr>))\<rparr>), eq)
                 \<and> unat ms = spec_margin_share pos stc \<and> ms \<le> margin pos
                 \<and> unat eq = spec_equity_released pair pos stc"
proof -
  let ?after = "\<lambda>margin_share. 
                 then_do (price_pnl (mark_px pair) (entry_px pos) stc (side pos)) (\<lambda>pnl_price.
                 then_do (funding_pnl (mark_px pair) stc (side pos)
                            (cum_funding_bps pair) (funding_index_open pos)) (\<lambda>pnl_funding.
                 then_do (add_chk pnl_price pnl_funding) (\<lambda>pnl_total.
                 then_do (add_chk (as_u128 margin_share) pnl_total) (\<lambda>equity_released.
                   if \<not> equity_released \<ge> 0 then Inl (InvalidState E_UNSAFE)
                   else
                     then_do (sub_chk (size_lots pos) stc) (\<lambda>size'.
                     then_do (sub_chk (margin pos) margin_share) (\<lambda>margin'.
                       let pos' = pos\<lparr>size_lots := size', margin := margin'\<rparr>;
                           tbl = (if size_lots pos' = 0 then (positions pair)(user := None)
                                  else (positions pair)(user \<mapsto> pos'))
                       in Inr (st(admin \<mapsto> pair\<lparr>positions := tbl\<rparr>), equity_released)))))))"
  from margin_share_ok [OF stc, of ?after] obtain ms where
    ms: "then_do (mul_chk (as_u128 (margin pos)) (as_u128 stc)) (\<lambda>prod.
               then_do (div_chk prod (as_u128 (size_lots pos))) (\<lambda>share128.
               then_do (as_u64 share128) ?after)) = ?after ms"
      "unat ms = spec_margin_share pos stc" "ms \<le> margin pos"
    by blast
  have unfold: "close_position st admin user pid stc = ?after ms"
    using pair pos stc ms(1)
    by (simp add: close_position_def pair_object_address_def Let_def not_le)
  obtain pp where pp: "price_pnl (mark_px pair) (entry_px pos) stc (side pos) = Inr pp"
    "unat pp = abs_diff (unat (mark_px pair)) (unat (entry_px pos)) * unat stc"
    using price_pnl_value by blast
  note fp = funding_pnl_value [of "mark_px pair" stc "side pos" "cum_funding_bps pair"
      "funding_index_open pos", folded spec_funding_raw_def]
  have zero: "size_lots pos - stc = 0 \<longleftrightarrow> stc = size_lots pos" by auto
  show "close_position st admin user pid stc = Inl ArithmeticError"
    if bad: "\<not> (spec_funding_raw pair pos stc < 2 ^ 128 \<and> spec_equity_released pair pos stc < 2 ^ 128)"
  proof (cases "spec_funding_raw pair pos stc < 2 ^ 128")
    case False
    then show ?thesis
      unfolding unfold by (simp add: pp(1) fp then_do_Inr then_do_Inl)
  next
    case True
    let ?fp = "of_nat (spec_funding_raw pair pos stc div 10000) :: u128"
    have f: "unat ?fp = spec_funding_raw pair pos stc div 10000"
      using True by (rule unat_of_nat_div)
    from bad True have big: "\<not> unat ms + (unat pp + unat ?fp) < 2 ^ 128"
      by (simp add: spec_equity_released_def ms(2) pp(2) f add.assoc)
    show ?thesis
    proof (cases "unat pp + unat ?fp < 2 ^ 128")
      case False
      then show ?thesis
        unfolding unfold using True
        by (simp add: pp(1) fp then_do_Inr then_do_Inl add_chk_def)
    next
      case ok: True
      then have "unat (pp + ?fp) = unat pp + unat ?fp" by (simp add: unat_word_ariths)
      with big have "\<not> unat (as_u128 ms) + unat (pp + ?fp) < 2 ^ 128"
        by (simp add: unat_as_u128)
      then show ?thesis
        unfolding unfold using True ok
        by (simp add: pp(1) fp then_do_Inr then_do_Inl add_chk_def)
    qed
  qed
  show "\<exists>ms eq. close_position st admin user pid stc =
                   Inr (st(admin \<mapsto> pair\<lparr>positions :=
                          (if stc = size_lots pos then (positions pair)(user := None)
                           else (positions pair)(user \<mapsto>
                             pos\<lparr>size_lots := size_lots pos - stc, margin := margin pos - ms\<rparr>))\<rparr>), eq)
                 \<and> unat ms = spec_margin_share pos stc \<and> ms \<le> margin pos
                 \<and> unat eq = spec_equity_released pair pos stc"
    if raw: "spec_funding_raw pair pos stc < 2 ^ 128"
      and fits: "spec_equity_released pair pos stc < 2 ^ 128"
  proof -
    let ?fp = "of_nat (spec_funding_raw pair pos stc div 10000) :: u128"
    have f: "unat ?fp = spec_funding_raw pair pos stc div 10000"
      using raw by (rule unat_of_nat_div)
    from fits have all: "unat ms + (unat pp + unat ?fp) < 2 ^ 128"
      by (simp add: spec_equity_released_def ms(2) pp(2) f add.assoc)
    then have ok: "unat pp + unat ?fp < 2 ^ 128" by simp
    then have t: "unat (pp + ?fp) = unat pp + unat ?fp" by (simp add: unat_word_ariths)
    with all have ok2: "unat (as_u128 ms) + unat (pp + ?fp) < 2 ^ 128"
      by (simp add: unat_as_u128)
    then have e: "unat (as_u128 ms + (pp + ?fp)) = spec_equity_released pair pos stc"
      using t by (simp add: unat_word_ariths unat_as_u128 spec_equity_released_def ms(2) pp(2) f)
    have "close_position st admin user pid stc =
        Inr (st(admin \<mapsto> pair\<lparr>positions :=
               (if stc = size_lots pos then (positions pair)(user := None)
                else (positions pair)(user \<mapsto>
                  pos\<lparr>size_lots := size_lots pos - stc, margin := margin pos - ms\<rparr>))\<rparr>),
             as_u128 ms + (pp + ?fp))"
      unfolding unfold using raw ok ok2 stc(2) ms(3)
      by (simp add: pp(1) fp then_do_Inr add_chk_def sub_chk_def zero Let_def)
    with ms(2,3) e show ?thesis by blast
  qed
qed

lemma small_open_eq:
  "small_open = [1 \<mapsto> \<lparr> pair_id = 0,
      cfg = \<lparr> max_lev_bps = 5000, init_margin_bps = 2000, maint_margin_bps = 1000, max_funding_bps_hour = 50 \<rparr>,
      mark_px = 1, cum_funding_bps = 0, last_funding_ts = 0, price_oracle = 2, vrf_oracle = 3,
      positions = [8 \<mapsto> \<lparr> side = 0, size_lots = 3, entry_px = 1, margin = 7, lev_bps = 5000,
         funding_index_open = 0 \<rparr>] \<rparr>]"
  by (simp add: small_open_def stuck_market_def ledger_defs)

lemmas close_defs = close_position_def price_pnl_def funding_pnl_def pair_object_address_def
  notional_def then_do_def mul_chk_def div_chk_def add_chk_def sub_chk_def as_u128_def
  as_u64_def Let_def

text \<open>
  C5 as stated (closing \<open>sizeToClose = size\<close> always deletes the position) fails: on
  \<open>stuck_open\<close> the full close of user 7 aborts with the arithmetic error, because
  \<open>price * size * |funding movement|\<close> leaves \<open>u128\<close>.
\<close>

theorem C5_close_counterexample:
  "positions (the (stuck_open 1)) 7 \<noteq> None
   \<and> size_lots (the (positions (the (stuck_open 1)) 7)) = 1152921504606846976
   \<and> close_position stuck_open 1 7 0 1152921504606846976 = Inl ArithmeticError"
  by (simp add: stuck_open_eq close_defs)

text \<open>
  C5, amended. On an existing market \<open>close_position\<close> aborts with \<open>NotFound\<close> if the
  position is missing and with \<open>InvalidArgument\<close> if \<open>sizeToClose\<close> is 0 or exceeds the
  position's size. Otherwise, if the funding movement or the released equity of the
  closed portion leaves \<open>u128\<close>, it aborts with the arithmetic error; else it returns,
  having taken \<open>marginShare = floor(margin * sizeToClose / size)\<close> from the margin and
  \<open>sizeToClose\<close> from the size, and having deleted the record exactly when
  \<open>sizeToClose = size\<close>, that is when the resulting size is 0.
\<close>

theorem C5_pro_rata_close:
  fixes st :: store and admin user :: address and pid stc :: u64
  assumes pair: "st admin = Some pair"
  shows
  "(positions pair user = None \<longrightarrow>
      close_position st admin user pid stc = Inl (NotFound E_POS_NOT_FOUND))
   \<and> (positions pair user = Some pos \<longrightarrow>
        (stc = 0 \<or> size_lots pos < stc \<longrightarrow>
           close_position st admin user pid stc = Inl (InvalidArgument E_BAD_QTY))
      \<and> (0 < stc \<and> stc \<le> size_lots pos \<longrightarrow>
           (\<not> (spec_funding_raw pair pos stc < 2 ^ 128
                \<and> spec_equity_released pair pos stc < 2 ^ 128) \<longrightarrow>
              close_position st admin user pid stc = Inl ArithmeticError)
         \<and> (spec_funding_raw pair pos stc < 2 ^ 128
              \<and> spec_equity_released pair pos stc < 2 ^ 128 \<longrightarrow>
              (\<exists>ms eq. close_position st admin user pid stc =
                   Inr (st(admin \<mapsto> pair\<lparr>positions :=
                          (if stc = size_lots pos then (positions pair)(user := None)
                           else (positions pair)(user \<mapsto>
                             pos\<lparr>size_lots := size_lots pos - stc, margin := margin pos - ms\<rparr>))\<rparr>), eq)
                 \<and> unat ms = unat (margin pos) * unat stc div unat (size_lots pos)
                 \<and> ms \<le> margin pos
                 \<and> unat eq = spec_equity_released pair pos stc))))"
proof -
  let ?close = "close_position st admin user pid stc"
  have 1: "?close = Inl (NotFound E_POS_NOT_FOUND)" if "positions pair user = None"
    using pair that by (simp add: close_position_def pair_object_address_def)
  have 2: "?close = Inl (InvalidArgument E_BAD_QTY)"
    if "positions pair user = Some pos" "stc = 0 \<or> size_lots pos < stc"
    using pair that by (auto simp: close_position_def pair_object_address_def not_le)
  note cases = close_position_cases [where st = st and admin = admin and user = user
      and pid = pid, OF pair]
  have 3: "?close = Inl ArithmeticError"
    if "positions pair user = Some pos" "0 < stc" "stc \<le> size_lots pos"
      "\<not> (spec_funding_raw pair pos stc < 2 ^ 128 \<and> spec_equity_released pair pos stc < 2 ^ 128)"
    using that by (rule cases(1))
  have 4: "\<exists>ms eq. ?close =
                   Inr (st(admin \<mapsto> pair\<lparr>positions :=
                          (if stc = size_lots pos then (positions pair)(user := None)
                           else (positions pair)(user \<mapsto>
                             pos\<lparr>size_lots := size_lots pos - stc, margin := margin pos - ms\<rparr>))\<rparr>), eq)
                 \<and> unat ms = unat (margin pos) * unat stc div unat (size_lots pos)
                 \<and> ms \<le> margin pos
                 \<and> unat eq = spec_equity_released pair pos stc"
    if "positions pair user = Some pos" "0 < stc" "stc \<le> size_lots pos"
      "spec_funding_raw pair pos stc < 2 ^ 128" "spec_equity_released pair pos stc < 2 ^ 128"
    using cases(2) [OF that] by (simp only: spec_margin_share_def)
  from 1 2 3 4 show ?thesis by blast
qed

lemma open_position_Inr:
  assumes "open_position st admin user pid sz sd lev mg epx = Inr st1"
  shows "\<exists>pair. st admin = Some pair \<and> 0 < sz
     \<and> st1 = st(admin \<mapsto> pair\<lparr>positions := (positions pair)(user \<mapsto>
          \<lparr> side = sd, size_lots = sz, entry_px = mark_px pair, margin = mg,
            lev_bps = lev, funding_index_open = cum_funding_bps pair \<rparr>)\<rparr>)"
  using assms
  by (auto simp: open_position_def pair_object_address_def Let_def then_do_eq_Inr
      split: if_splits option.splits)

lemma full_close_flat:
  fixes st2 :: store
  assumes p2: "st2 admin = Some p2" and pos: "positions p2 user = Some pos"
    and nz: "0 < size_lots pos"
    and px: "mark_px p2 = entry_px pos" and cum: "cum_funding_bps p2 = funding_index_open pos"
  shows "close_position st2 admin user pid (size_lots pos) =
     Inr (st2(admin \<mapsto> p2\<lparr>positions := (positions p2)(user := None)\<rparr>), as_u128 (margin pos))"
proof -
  have raw: "spec_funding_raw p2 pos (size_lots pos) = 0"
    by (simp add: spec_funding_raw_def abs_diff_def cum)
  from nz have "0 < unat (size_lots pos)" by (simp add: word_less_nat_alt)
  then have eqr: "spec_equity_released p2 pos (size_lots pos) = unat (margin pos)"
    by (simp add: spec_equity_released_def raw spec_margin_share_def abs_diff_def px)
  have a: "spec_funding_raw p2 pos (size_lots pos) < 2 ^ 128" by (simp add: raw)
  have b: "spec_equity_released p2 pos (size_lots pos) < 2 ^ 128"
    unfolding eqr using unat_u64_bound [of "margin pos"] by simp
  from close_position_cases(2) [where st = st2 and admin = admin and user = user and pid = pid,
      OF p2 pos nz order_refl a b]
  obtain eq where c: "close_position st2 admin user pid (size_lots pos) =
      Inr (st2(admin \<mapsto> p2\<lparr>positions := (positions p2)(user := None)\<rparr>), eq)"
    and e: "unat eq = spec_equity_released p2 pos (size_lots pos)"
    by auto
  from e have "unat eq = unat (as_u128 (margin pos))" by (simp only: eqr unat_as_u128)
  then have "eq = as_u128 (margin pos)" by (simp only: word_unat_eq_iff)
  with c show ?thesis by simp
qed

text \<open>
  C6. After a successful \<open>open_position\<close> the position is stored with the size and margin
  given, the mark price as entry price and the funding index as snapshot. Closing it
  fully, at once or in any later storage where the position is the same, the mark price
  equals the entry price and the funding index equals the snapshot, returns with
  \<open>equity_released\<close> equal to the locked margin and the position deleted.
\<close>

theorem C6_round_trip:
  fixes st :: store
  assumes opened: "open_position st admin user pid sz sd lev mg epx = Inr st1"
  shows "\<exists>p1 pos. st1 admin = Some p1 \<and> positions p1 user = Some pos
     \<and> size_lots pos = sz \<and> margin pos = mg \<and> side pos = sd \<and> lev_bps pos = lev
     \<and> entry_px pos = mark_px p1 \<and> funding_index_open pos = cum_funding_bps p1
     \<and> close_position st1 admin user pid sz =
          Inr (st1(admin \<mapsto> p1\<lparr>positions := (positions p1)(user := None)\<rparr>), as_u128 mg)
     \<and> (\<forall>st2 p2. st2 admin = Some p2 \<and> positions p2 user = Some pos
           \<and> mark_px p2 = entry_px pos \<and> cum_funding_bps p2 = funding_index_open pos \<longrightarrow>
           close_position st2 admin user pid sz =
             Inr (st2(admin \<mapsto> p2\<lparr>positions := (positions p2)(user := None)\<rparr>), as_u128 mg))"
proof -
  from open_position_Inr [OF opened] obtain pair where
    pair: "st admin = Some pair" and sz: "0 < sz"
    and st1: "st1 = st(admin \<mapsto> pair\<lparr>positions := (positions pair)(user \<mapsto>
          \<lparr> side = sd, size_lots = sz, entry_px = mark_px pair, margin = mg,
            lev_bps = lev, funding_index_open = cum_funding_bps pair \<rparr>)\<rparr>)"
    by blast
  let ?pos = "\<lparr> side = sd, size_lots = sz, entry_px = mark_px pair, margin = mg,
            lev_bps = lev, funding_index_open = cum_funding_bps pair \<rparr>"
  let ?p1 = "pair\<lparr>positions := (positions pair)(user \<mapsto> ?pos)\<rparr>"
  have a: "st1 admin = Some ?p1" "positions ?p1 user = Some ?pos"
    by (simp_all add: st1)
  have flat: "close_position st2 admin user pid sz =
             Inr (st2(admin \<mapsto> p2\<lparr>positions := (positions p2)(user := None)\<rparr>), as_u128 mg)"
    if "st2 admin = Some p2" "positions p2 user = Some ?pos"
      "mark_px p2 = entry_px ?pos" "cum_funding_bps p2 = funding_index_open ?pos"
    for st2 :: store and p2
    using full_close_flat [where ?st2.0 = st2 and admin = admin and user = user and pid = pid,
        OF that(1,2) _ that(3,4)] sz
    by simp
  have now: "close_position st1 admin user pid sz =
          Inr (st1(admin \<mapsto> ?p1\<lparr>positions := (positions ?p1)(user := None)\<rparr>), as_u128 mg)"
    using a by (intro flat) simp_all
  from a now flat show ?thesis
    by (intro exI [of _ ?p1] exI [of _ ?pos]) simp
qed

text \<open>The amended C5 on \<open>small_open\<close> (margin 7, size 3: closing 1 lot releases 2) and on \<open>stuck_open\<close>.\<close>

theorem C5_pro_rata_close_witness:
  "close_position small_open 1 9 0 1 = Inl (NotFound E_POS_NOT_FOUND)
   \<and> close_position small_open 1 8 0 0 = Inl (InvalidArgument E_BAD_QTY)
   \<and> close_position small_open 1 8 0 4 = Inl (InvalidArgument E_BAD_QTY)
   \<and> (\<exists>st' eq. close_position small_open 1 8 0 1 = Inr (st', eq) \<and> unat eq = 2
         \<and> size_lots (the (positions (the (st' 1)) 8)) = 2
         \<and> unat (margin (the (positions (the (st' 1)) 8))) = 5)
   \<and> (\<exists>st' eq. close_position small_open 1 8 0 3 = Inr (st', eq)
         \<and> positions (the (st' 1)) 8 = None)
   \<and> close_position stuck_open 1 7 0 1152921504606846976 = Inl ArithmeticError"
proof -
  let ?p = "the (small_open 1)" and ?q = "the (stuck_open 1)"
  let ?pos = "the (positions ?p 8)" and ?qos = "the (positions ?q 7)"
  have p: "small_open 1 = Some ?p" and pos: "positions ?p 8 = Some ?pos"
    and none: "positions ?p 9 = None"
    and vals: "size_lots ?pos = 3" "margin ?pos = 7"
    by (simp_all add: small_open_eq)
  have q: "stuck_open 1 = Some ?q" and qos: "positions ?q 7 = Some ?qos"
    and big: "(0::u64) < 1152921504606846976" "1152921504606846976 \<le> size_lots ?qos"
      "\<not> (spec_funding_raw ?q ?qos 1152921504606846976 < 2 ^ 128
          \<and> spec_equity_released ?q ?qos 1152921504606846976 < 2 ^ 128)"
    by (simp_all add: stuck_open_eq spec_funding_raw_def abs_diff_def)
  have fit1: "spec_funding_raw ?p ?pos 1 < 2 ^ 128 \<and> spec_equity_released ?p ?pos 1 < 2 ^ 128"
    and eq1: "spec_equity_released ?p ?pos 1 = 2"
    and fit3: "spec_funding_raw ?p ?pos 3 < 2 ^ 128 \<and> spec_equity_released ?p ?pos 3 < 2 ^ 128"
    by (simp_all add: small_open_eq spec_funding_raw_def spec_equity_released_def
        spec_margin_share_def abs_diff_def)
  note a = C5_pro_rata_close [where st = small_open and admin = 1 and user = 9 and pid = 0
      and stc = 1 and pos = ?pos, OF p]
  note b = C5_pro_rata_close [where st = small_open and admin = 1 and user = 8 and pid = 0
      and stc = 0 and pos = ?pos, OF p]
  note b' = C5_pro_rata_close [where st = small_open and admin = 1 and user = 8 and pid = 0
      and stc = 4 and pos = ?pos, OF p]
  note c = C5_pro_rata_close [where st = small_open and admin = 1 and user = 8 and pid = 0
      and stc = 1 and pos = ?pos, OF p]
  note d = C5_pro_rata_close [where st = small_open and admin = 1 and user = 8 and pid = 0
      and stc = 3 and pos = ?pos, OF p]
  note e = C5_pro_rata_close [where st = stuck_open and admin = 1 and user = 7 and pid = 0
      and stc = 1152921504606846976 and pos = ?qos, OF q]
  from a none have 1: "close_position small_open 1 9 0 1 = Inl (NotFound E_POS_NOT_FOUND)"
    by blast
  from b pos have 2: "close_position small_open 1 8 0 0 = Inl (InvalidArgument E_BAD_QTY)"
    by blast
  have "size_lots ?pos < 4" unfolding vals by simp
  with b' pos have 3: "close_position small_open 1 8 0 4 = Inl (InvalidArgument E_BAD_QTY)"
    by blast
  have r1: "(0::u64) < 1" "1 \<le> size_lots ?pos" "(1::u64) \<noteq> size_lots ?pos"
    and r3: "(0::u64) < 3" "3 \<le> size_lots ?pos" "(3::u64) = size_lots ?pos"
    unfolding vals by simp_all
  from c pos r1(1,2) fit1 obtain ms eq where
    cl: "close_position small_open 1 8 0 1 =
           Inr (small_open(1 \<mapsto> ?p\<lparr>positions :=
                  (if 1 = size_lots ?pos then (positions ?p)(8 := None)
                   else (positions ?p)(8 \<mapsto>
                     ?pos\<lparr>size_lots := size_lots ?pos - 1, margin := margin ?pos - ms\<rparr>))\<rparr>), eq)"
      and ms: "unat ms = unat (margin ?pos) * unat (1::u64) div unat (size_lots ?pos)"
        "ms \<le> margin ?pos"
      and eq: "unat eq = spec_equity_released ?p ?pos 1"
    by blast
  from ms(1) have ms2: "unat ms = 2" unfolding vals by simp
  have "unat (margin ?pos - ms) = unat (margin ?pos) - unat ms"
    using ms(2) by (rule unat_sub)
  then have m5: "unat (margin ?pos - ms) = 5" unfolding vals ms2 by simp
  have s2: "size_lots ?pos - 1 = 2" unfolding vals by simp
  from cl r1(3) m5 s2 eq eq1 have 4:
    "\<exists>st' eq. close_position small_open 1 8 0 1 = Inr (st', eq) \<and> unat eq = 2
         \<and> size_lots (the (positions (the (st' 1)) 8)) = 2
         \<and> unat (margin (the (positions (the (st' 1)) 8))) = 5"
    by simp
  from d pos r3(1,2) fit3 obtain ms' eq' where
    "close_position small_open 1 8 0 3 =
           Inr (small_open(1 \<mapsto> ?p\<lparr>positions :=
                  (if 3 = size_lots ?pos then (positions ?p)(8 := None)
                   else (positions ?p)(8 \<mapsto>
                     ?pos\<lparr>size_lots := size_lots ?pos - 3, margin := margin ?pos - ms'\<rparr>))\<rparr>), eq')"
    by blast
  with r3(3) have 5: "\<exists>st' eq. close_position small_open 1 8 0 3 = Inr (st', eq)
         \<and> positions (the (st' 1)) 8 = None"
    by simp
  from e qos big have 6:
    "close_position stuck_open 1 7 0 1152921504606846976 = Inl ArithmeticError"
    by blast
  from 1 2 3 4 5 6 show ?thesis by blast
qed

text \<open>C6 on \<open>demo_market\<close>: user 7 opens 10 lots with margin 200 and closes them.\<close>

theorem C6_round_trip_witness:
  "open_position demo_market 1 7 0 10 0 5000 200 100 = Inr demo_open
   \<and> (\<exists>st3. close_position demo_open 1 7 0 10 = Inr (st3, 200)
          \<and> positions (the (st3 1)) 7 = None)"
proof -
  have opened: "open_position demo_market 1 7 0 10 0 5000 200 100 = Inr demo_open"
    by (simp add: demo_open_eq demo_market_eq ledger_defs)
  from C6_round_trip [OF opened] obtain p1 where
    "close_position demo_open 1 7 0 10 =
       Inr (demo_open(1 \<mapsto> p1\<lparr>positions := (positions p1)(7 := None)\<rparr>), as_u128 200)"
    by blast
  then have "\<exists>st3. close_position demo_open 1 7 0 10 = Inr (st3, 200)
          \<and> positions (the (st3 1)) 7 = None"
    by (simp add: as_u128_def)
  with opened show ?thesis by blast
qed

end
